theory Spec2Isabelle
  imports Complex_Main
begin

section \<open>JavaScript values\<close>

text \<open>
  Request bodies arrive through \<^verbatim>\<open>express.json()\<close>, so every field of \<^verbatim>\<open>req.body\<close> is a
  JSON value, or \<^verbatim>\<open>undefined\<close> when the field is absent. A JSON number is a finite double,
  or an infinity when the literal is beyond the range of doubles (\<^verbatim>\<open>JSON.parse("1e999")\<close> is
  \<^verbatim>\<open>Infinity\<close>). The handlers only compare numbers with integers, and on such comparisons
  a finite double agrees with the rational it denotes, so a finite number is a
  \<^typ>\<open>rat\<close>. An object is the list of its properties, each key once.
\<close>

datatype json =
    JUndefined
  | JNull
  | JBool bool
  | JNum rat
  | JPosInfinity
  | JNegInfinity
  | JStr string
  | JArr "json list"
  | JObj "(string \<times> json) list"

text \<open>\<^verbatim>\<open>!v\<close> is \<open>\<not> truthy v\<close>.\<close>

fun truthy :: "json \<Rightarrow> bool" where
  "truthy JUndefined = False"
| "truthy JNull = False"
| "truthy (JBool b) = b"
| "truthy (JNum q) = (q \<noteq> 0)"
| "truthy JPosInfinity = True"
| "truthy JNegInfinity = True"
| "truthy (JStr s) = (s \<noteq> [])"
| "truthy (JArr xs) = True"
| "truthy (JObj kvs) = True"

text \<open>
  \<^verbatim>\<open>a === b\<close>: primitives compare by value; arrays and objects compare by reference, and two
  values that come from different parses (a stored record and a request) are never the
  same reference.
\<close>

fun strict_eq :: "json \<Rightarrow> json \<Rightarrow> bool" where
  "strict_eq JUndefined JUndefined = True"
| "strict_eq JNull JNull = True"
| "strict_eq (JBool a) (JBool b) = (a = b)"
| "strict_eq (JNum a) (JNum b) = (a = b)"
| "strict_eq JPosInfinity JPosInfinity = True"
| "strict_eq JNegInfinity JNegInfinity = True"
| "strict_eq (JStr a) (JStr b) = (a = b)"
| "strict_eq _ _ = False"

text \<open>\<^verbatim>\<open>typeof v\<close>.\<close>

fun typeof :: "json \<Rightarrow> string" where
  "typeof JUndefined = ''undefined''"
| "typeof JNull = ''object''"
| "typeof (JBool b) = ''boolean''"
| "typeof (JNum q) = ''number''"
| "typeof JPosInfinity = ''number''"
| "typeof JNegInfinity = ''number''"
| "typeof (JStr s) = ''string''"
| "typeof (JArr xs) = ''object''"
| "typeof (JObj kvs) = ''object''"

text \<open>
  What is read back after a value was written with \<^verbatim>\<open>JSON.stringify\<close>, to a file or into a
  response or a token: an infinity is written as \<^verbatim>\<open>null\<close>, and so is \<^verbatim>\<open>undefined\<close> inside an
  array; a property whose value is \<^verbatim>\<open>undefined\<close> is left out, so it reads as \<^verbatim>\<open>undefined\<close>
  again. A record that was read from a file is written back as it was read.
\<close>

fun stored :: "json \<Rightarrow> json" where
  "stored JPosInfinity = JNull"
| "stored JNegInfinity = JNull"
| "stored (JArr xs) = JArr (map (\<lambda>x. if x = JUndefined then JNull else stored x) xs)"
| "stored (JObj kvs) =
     JObj (map (\<lambda>(k, v). (k, stored v)) (filter (\<lambda>(k, v). v \<noteq> JUndefined) kvs))"
| "stored v = v"

text \<open>\<^verbatim>\<open>xs.includes(v)\<close> for an array \<open>xs\<close> of string literals.\<close>

definition array_includes :: "string list \<Rightarrow> json \<Rightarrow> bool" where
  "array_includes xs v = (\<exists>x \<in> set xs. strict_eq (JStr x) v)"

text \<open>\<^verbatim>\<open>xs.join(', ')\<close>.\<close>

fun join :: "string \<Rightarrow> string list \<Rightarrow> string" where
  "join sep [] = []"
| "join sep [x] = x"
| "join sep (x # y # ys) = x @ sep @ join sep (y # ys)"

text \<open>\<^verbatim>\<open>xs.findIndex(p)\<close>: the first index whose element satisfies \<open>p\<close>; \<open>None\<close> is \<^verbatim>\<open>-1\<close>.\<close>

fun findIndex :: "('a \<Rightarrow> bool) \<Rightarrow> 'a list \<Rightarrow> nat option" where
  "findIndex p [] = None"
| "findIndex p (x # xs) =
     (if p x then Some 0 else map_option Suc (findIndex p xs))"

subsection \<open>parseInt\<close>

text \<open>
  \<^verbatim>\<open>parseInt(v)\<close> converts \<open>v\<close> to a string, skips leading white space, reads an optional
  sign and an optional \<^verbatim>\<open>0x\<close> prefix, and then the longest run of digits; the integer they
  denote is rounded to the nearest double. With no digit the result is \<^verbatim>\<open>NaN\<close>, and a
  run of digits beyond the range of doubles gives an infinity: both are \<open>None\<close> here, as
  both are written as \<^verbatim>\<open>null\<close> and neither is \<^verbatim>\<open>===\<close> to a number that was read from a file.
  Strings are sequences of bytes, the UTF-8 encoding of the JavaScript string, so the
  white space characters beyond ASCII are sequences of two or three bytes.
\<close>

definition white_space :: "string list" where
  "white_space =
     [[CHR '' ''], [CHR 0x09], [CHR 0x0A], [CHR 0x0B], [CHR 0x0C], [CHR 0x0D],
      [CHR 0xC2, CHR 0xA0], [CHR 0xE1, CHR 0x9A, CHR 0x80],
      [CHR 0xE2, CHR 0x80, CHR 0x80], [CHR 0xE2, CHR 0x80, CHR 0x81],
      [CHR 0xE2, CHR 0x80, CHR 0x82], [CHR 0xE2, CHR 0x80, CHR 0x83],
      [CHR 0xE2, CHR 0x80, CHR 0x84], [CHR 0xE2, CHR 0x80, CHR 0x85],
      [CHR 0xE2, CHR 0x80, CHR 0x86], [CHR 0xE2, CHR 0x80, CHR 0x87],
      [CHR 0xE2, CHR 0x80, CHR 0x88], [CHR 0xE2, CHR 0x80, CHR 0x89],
      [CHR 0xE2, CHR 0x80, CHR 0x8A], [CHR 0xE2, CHR 0x80, CHR 0xA8],
      [CHR 0xE2, CHR 0x80, CHR 0xA9], [CHR 0xE2, CHR 0x80, CHR 0xAF],
      [CHR 0xE2, CHR 0x81, CHR 0x9F], [CHR 0xE3, CHR 0x80, CHR 0x80],
      [CHR 0xEF, CHR 0xBB, CHR 0xBF]]"

text \<open>
  Dropping the white space at the start; the first argument bounds the number of
  characters dropped and is the length of the string.
\<close>

fun skip_space :: "nat \<Rightarrow> string \<Rightarrow> string" where
  "skip_space 0 s = s"
| "skip_space (Suc n) s =
     (case find (\<lambda>w. take (length w) s = w) white_space of
        None \<Rightarrow> s
      | Some w \<Rightarrow> skip_space n (drop (length w) s))"

definition trim_start :: "string \<Rightarrow> string" where
  "trim_start s = skip_space (length s) s"

definition digit_of :: "char \<Rightarrow> nat option" where
  "digit_of c =
     (let n = (of_char c :: nat) in
      if 48 \<le> n \<and> n \<le> 57 then Some (n - 48)
      else if 97 \<le> n \<and> n \<le> 102 then Some (n - 87)
      else if 65 \<le> n \<and> n \<le> 70 then Some (n - 55)
      else None)"

definition is_digit :: "nat \<Rightarrow> char \<Rightarrow> bool" where
  "is_digit radix c = (case digit_of c of None \<Rightarrow> False | Some d \<Rightarrow> d < radix)"

definition digits_value :: "nat \<Rightarrow> string \<Rightarrow> nat" where
  "digits_value radix ds =
     foldl (\<lambda>acc c. acc * radix + (case digit_of c of None \<Rightarrow> 0 | Some d \<Rightarrow> d)) 0 ds"

text \<open>
  The nearest double of a natural number, ties to the even significand; \<open>None\<close> when the
  nearest double is the infinity.
\<close>

fun bit_length :: "nat \<Rightarrow> nat" where
  "bit_length n = (if n = 0 then 0 else Suc (bit_length (n div 2)))"

definition to_double :: "nat \<Rightarrow> nat option" where
  "to_double n =
     (if n < 2 ^ 53 then Some n
      else
        (let e = bit_length n - 53;
             q = n div 2 ^ e;
             r = n mod 2 ^ e;
             q' = (if r > 2 ^ (e - 1) \<or> (r = 2 ^ (e - 1) \<and> odd q) then q + 1 else q)
         in if q' * 2 ^ e \<ge> 2 ^ 1024 then None else Some (q' * 2 ^ e)))"

definition parse_digits :: "nat \<Rightarrow> string \<Rightarrow> nat option" where
  "parse_digits radix s =
     (case takeWhile (is_digit radix) s of
        [] \<Rightarrow> None
      | ds \<Rightarrow> to_double (digits_value radix ds))"

definition parse_unsigned :: "string \<Rightarrow> nat option" where
  "parse_unsigned s =
     (if take 2 s = ''0x'' \<or> take 2 s = ''0X'' then parse_digits 16 (drop 2 s)
      else parse_digits 10 s)"

definition parseInt_string :: "string \<Rightarrow> int option" where
  "parseInt_string s =
     (case trim_start s of
        [] \<Rightarrow> None
      | c # cs \<Rightarrow>
          if c = CHR ''-'' then map_option (\<lambda>n. - int n) (parse_unsigned cs)
          else if c = CHR ''+'' then map_option int (parse_unsigned cs)
          else map_option int (parse_unsigned (c # cs)))"

text \<open>
  A finite number that prints in decimal notation (it is zero, or its magnitude is from
  \<^verbatim>\<open>1e-6\<close> up to \<^verbatim>\<open>1e21\<close>) prints as its decimal expansion, so its \<^verbatim>\<open>parseInt\<close> is its
  truncation toward zero. Outside that range a number prints in exponent notation and
  \<^verbatim>\<open>parseInt\<close> reads its first digit only; the equation for numbers does not cover that
  range. An infinity prints as a word without digits. An array prints as its elements
  joined by commas, and the comma ends the run of digits, so only the first element
  counts.
\<close>

fun parseInt :: "json \<Rightarrow> int option" where
  "parseInt (JStr s) = parseInt_string s"
| "parseInt (JNum q) = Some (if 0 \<le> q then \<lfloor>q\<rfloor> else \<lceil>q\<rceil>)"
| "parseInt (JArr (x # xs)) = parseInt x"
| "parseInt _ = None"

text \<open>
  \<^verbatim>\<open>n === parseInt(v)\<close> for a stored number \<open>n\<close>, where a stored \<open>None\<close> is the \<^verbatim>\<open>null\<close> that
  \<^verbatim>\<open>JSON.stringify\<close> writes for \<^verbatim>\<open>NaN\<close>: \<^verbatim>\<open>NaN\<close> and \<^verbatim>\<open>null\<close> are never \<^verbatim>\<open>===\<close> to the result of
  \<^verbatim>\<open>parseInt\<close>, not even to \<^verbatim>\<open>NaN\<close> itself.
\<close>

fun num_eq :: "int option \<Rightarrow> int option \<Rightarrow> bool" where
  "num_eq (Some a) (Some b) = (a = b)"
| "num_eq _ _ = False"

section \<open>Responses\<close>

text \<open>
  \<^verbatim>\<open>res.status(s).json({ message: m })\<close> is \<open>Message s m\<close>; \<^verbatim>\<open>res.status(s).json(v)\<close> for a
  record or a list of records \<open>v\<close> is \<open>Body s v\<close> (\<^verbatim>\<open>res.json(v)\<close> has status 200).
\<close>

datatype 'a response = Message nat string | Body nat 'a

fun status :: "'a response \<Rightarrow> nat" where
  "status (Message s m) = s"
| "status (Body s v) = s"

section \<open>Accounts\<close>

text \<open>
  A stored Identity, as it is read from \<^verbatim>\<open>users.json\<close>. \<open>u_section\<close> is \<open>JUndefined\<close> when
  the object has no \<^verbatim>\<open>section\<close> property. The password is stored as a bcrypt hash; hashing
  is modelled symbolically.
\<close>

datatype pwhash = Bcrypt string

record user =
  u_id :: int
  u_email :: json
  u_password :: pwhash
  u_userType :: json
  u_section :: json


definition VALID_USER_TYPES :: "string list" where
  "VALID_USER_TYPES = [''Admin'', ''Teacher'', ''Student'']"

text \<open>
  \<^verbatim>\<open>s.toLowerCase()\<close> on ASCII letters (characters are bytes here). On a value that is not a
  string the call throws a \<^verbatim>\<open>TypeError\<close>, here \<open>None\<close>.
\<close>

definition lower_char :: "char \<Rightarrow> char" where
  "lower_char c =
     (case map_of (zip ''ABCDEFGHIJKLMNOPQRSTUVWXYZ'' ''abcdefghijklmnopqrstuvwxyz'') c of
        None \<Rightarrow> c
      | Some l \<Rightarrow> l)"

fun toLowerCase :: "json \<Rightarrow> string option" where
  "toLowerCase (JStr s) = Some (map lower_char s)"
| "toLowerCase _ = None"

datatype exn = TypeError | Error

text \<open>
  \<^verbatim>\<open>users.find(user => user.email.toLowerCase() === email.toLowerCase())\<close>: the callback runs
  on the users in order until it returns true; either call may throw.
\<close>

fun find_by_email :: "user list \<Rightarrow> json \<Rightarrow> exn + user option" where
  "find_by_email [] email = Inr None"
| "find_by_email (u # us) email =
     (case toLowerCase (u_email u) of
        None \<Rightarrow> Inl TypeError
      | Some a \<Rightarrow>
          (case toLowerCase email of
             None \<Rightarrow> Inl TypeError
           | Some b \<Rightarrow> if a = b then Inr (Some u) else find_by_email us email))"

subsection \<open>Identity tokens\<close>

text \<open>
  \<^verbatim>\<open>jsonwebtoken\<close> is a library, modelled symbolically: a token is either a string that does
  not parse as a JWT, or the claims together with the key that signed them. \<^verbatim>\<open>jwt.sign\<close>
  with \<^verbatim>\<open>expiresIn\<close> adds \<^verbatim>\<open>iat\<close> and \<^verbatim>\<open>exp = iat + ttl\<close> (seconds), and throws when the secret
  is empty or unset (the empty string here); \<^verbatim>\<open>jwt.verify\<close> throws
  \<^verbatim>\<open>JsonWebTokenError\<close> on a malformed token or a signature made with another key, and
  \<^verbatim>\<open>TokenExpiredError\<close> once the clock has reached \<^verbatim>\<open>exp\<close>.
\<close>

record payload =
  p_id :: int
  p_email :: json
  p_userType :: json
  p_section :: json

record claims = payload +
  c_iat :: nat
  c_exp :: nat

datatype token = Malformed string | Jwt string claims

datatype jwt_error = JsonWebTokenError | TokenExpiredError

definition jwt_sign :: "payload \<Rightarrow> string \<Rightarrow> nat \<Rightarrow> nat \<Rightarrow> exn + token" where
  "jwt_sign p secret expiresIn now =
     (if secret = [] then Inl Error
      else Inr (Jwt secret \<lparr> p_id = p_id p, p_email = stored (p_email p),
                             p_userType = stored (p_userType p),
                             p_section = stored (p_section p),
                             c_iat = now, c_exp = now + expiresIn \<rparr>))"

definition jwt_verify :: "token \<Rightarrow> string \<Rightarrow> nat \<Rightarrow> jwt_error + claims" where
  "jwt_verify t secret now =
     (case t of
        Malformed s \<Rightarrow> Inl JsonWebTokenError
      | Jwt key c \<Rightarrow>
          if key \<noteq> secret then Inl JsonWebTokenError
          else if now \<ge> c_exp c then Inl TokenExpiredError
          else Inr c)"

text \<open>bcrypt hashes the first 72 bytes of the password.\<close>

definition bcrypt_hash :: "string \<Rightarrow> pwhash" where
  "bcrypt_hash password = Bcrypt (take 72 password)"

fun bcrypt_compare :: "string \<Rightarrow> pwhash \<Rightarrow> bool" where
  "bcrypt_compare password (Bcrypt p) = (take 72 password = p)"

subsection \<open>Signup and signin\<close>

text \<open>
  \<^verbatim>\<open>POST /auth/signup\<close>. \<open>secret\<close> is \<^verbatim>\<open>process.env.JWT_SECRET\<close>, \<open>now\<close> the clock in
  seconds, \<open>users\<close> the content of \<^verbatim>\<open>users.json\<close>. Any exception is caught and answered
  with status 500; \<^verbatim>\<open>bcrypt.hash\<close> throws on a password that is not a string, before
  anything is written, and \<^verbatim>\<open>jwt.sign\<close> runs after \<^verbatim>\<open>writeUsers\<close>, so when it throws the new
  Identity is stored already.
\<close>

definition signup ::
  "string \<Rightarrow> nat \<Rightarrow> json \<Rightarrow> json \<Rightarrow> json \<Rightarrow> json \<Rightarrow> user list
     \<Rightarrow> token response \<times> user list" where
  "signup secret now email password userType section users =
     (if \<not> truthy email \<or> \<not> truthy password \<or> \<not> truthy userType then
        (Message 400 ''Email, password, and userType are required'', users)
      else if userType = JStr ''Student'' \<and> \<not> truthy section then
        (Message 400 ''Section is required for Students'', users)
      else if \<not> array_includes VALID_USER_TYPES userType then
        (Message 400 ''Invalid userType. Must be Admin, Teacher, or Student'', users)
      else
        (case find_by_email users email of
           Inl e \<Rightarrow> (Message 500 ''Server error'', users)
         | Inr (Some u) \<Rightarrow> (Message 400 ''User already exists'', users)
         | Inr None \<Rightarrow>
             (case password of
                JStr pw \<Rightarrow>
                  (let newUser = \<lparr> u_id = int (length users) + 1, u_email = stored email,
                                   u_password = bcrypt_hash pw, u_userType = stored userType,
                                   u_section = (if userType = JStr ''Student''
                                                then stored section else JUndefined) \<rparr>;
                       tokenPayload = \<lparr> p_id = int (length users) + 1, p_email = email,
                                        p_userType = userType,
                                        p_section = (if userType = JStr ''Student'' then section
                                                     else JUndefined) \<rparr>
                   in case jwt_sign tokenPayload secret 3600 now of
                        Inl e \<Rightarrow> (Message 500 ''Server error'', users @ [newUser])
                      | Inr token \<Rightarrow> (Body 201 token, users @ [newUser]))
              | _ \<Rightarrow> (Message 500 ''Server error'', users))))"

text \<open>\<^verbatim>\<open>POST /auth/signin\<close>; it never writes.\<close>

definition signin ::
  "string \<Rightarrow> nat \<Rightarrow> json \<Rightarrow> json \<Rightarrow> user list \<Rightarrow> token response" where
  "signin secret now email password users =
     (if \<not> truthy email \<or> \<not> truthy password then
        Message 400 ''Email and password are required''
      else
        (case find_by_email users email of
           Inl e \<Rightarrow> Message 500 ''Server error''
         | Inr None \<Rightarrow> Message 401 ''Invalid credentials''
         | Inr (Some user) \<Rightarrow>
             (case password of
                JStr pw \<Rightarrow>
                  if \<not> bcrypt_compare pw (u_password user) then
                    Message 401 ''Invalid credentials''
                  else
                    (case jwt_sign \<lparr> p_id = u_id user, p_email = u_email user,
                                      p_userType = u_userType user,
                                      p_section = JUndefined \<rparr> secret 3600 now of
                       Inl e \<Rightarrow> Message 500 ''Server error''
                     | Inr token \<Rightarrow> Body 200 token)
              | _ \<Rightarrow> Message 500 ''Server error'')))"

subsection \<open>Authentication\<close>

text \<open>
  \<open>auth_token\<close> is \<^verbatim>\<open>req.headers.authorization?.split(' ')[1]\<close>, \<open>None\<close> when it is
  \<^verbatim>\<open>undefined\<close> or empty. The shared middleware looks the token's \<^verbatim>\<open>id\<close> up in
  \<^verbatim>\<open>users.json\<close> and attaches the stored Identity; the attendance router has its own
  middleware, which attaches the decoded claims.
\<close>

definition authenticate ::
  "token option \<Rightarrow> string \<Rightarrow> nat \<Rightarrow> user list \<Rightarrow> 'a response + user" where
  "authenticate auth_token secret now users =
     (case auth_token of
        None \<Rightarrow> Inl (Message 401 ''No token provided'')
      | Some t \<Rightarrow>
          (case jwt_verify t secret now of
             Inl e \<Rightarrow> Inl (Message 401 ''Invalid token'')
           | Inr decoded \<Rightarrow>
               (case find (\<lambda>u. u_id u = p_id decoded) users of
                  None \<Rightarrow> Inl (Message 401 ''Invalid token'')
                | Some user \<Rightarrow> Inr user)))"

definition attendance_authenticate ::
  "token option \<Rightarrow> string \<Rightarrow> nat \<Rightarrow> 'a response + claims" where
  "attendance_authenticate auth_token secret now =
     (case auth_token of
        None \<Rightarrow> Inl (Message 401 ''No token provided'')
      | Some t \<Rightarrow>
          (case jwt_verify t secret now of
             Inl e \<Rightarrow> Inl (Message 401 ''Invalid token'')
           | Inr decoded \<Rightarrow> Inr decoded))"

section \<open>Marks\<close>

record mark =
  m_userId :: "int option"
  m_subject :: json
  m_marks :: rat
  m_grade :: string
  m_updatedBy :: int
  m_updatedAt :: string

definition calculateGrade :: "rat \<Rightarrow> string" where
  "calculateGrade marks =
     (if marks \<ge> 90 then ''A''
      else if marks \<ge> 80 then ''B''
      else if marks \<ge> 70 then ''C''
      else if marks \<ge> 60 then ''D''
      else ''F'')"

definition validSubjects :: "string list" where
  "validSubjects = [''Math'', ''Science'', ''English'']"

text \<open>
  \<^verbatim>\<open>POST /marks\<close>. \<open>req_user\<close> is the Identity the middleware attached, \<open>now\<close> is
  \<^verbatim>\<open>new Date().toISOString()\<close>, \<open>allMarks\<close> is the content of \<^verbatim>\<open>marks.json\<close> (a missing file
  reads as the empty list); the result is the response and the content of the file
  afterwards.
\<close>

definition marks_post ::
  "user \<Rightarrow> string \<Rightarrow> json \<Rightarrow> json \<Rightarrow> json \<Rightarrow> mark list \<Rightarrow> mark response \<times> mark list" where
  "marks_post req_user now userId subject marks allMarks =
     (if u_userType req_user \<noteq> JStr ''Admin'' \<and> u_userType req_user \<noteq> JStr ''Teacher'' then
        (Message 403 ''Only Admins or Teachers can update marks'', allMarks)
      else if \<not> truthy userId \<or> \<not> truthy subject \<or> marks = JUndefined then
        (Message 400 ''userId, subject, and marks are required'', allMarks)
      else
        (case marks of
           JNum m \<Rightarrow>
             if m < 0 \<or> m > 100 then
               (Message 400 ''Marks must be a number between 0 and 100'', allMarks)
             else if \<not> array_includes validSubjects subject then
               (Message 400 (''Subject must be one of: '' @ join '', '' validSubjects), allMarks)
             else
               (let existingMarkIndex =
                      findIndex (\<lambda>m. num_eq (m_userId m) (parseInt userId)
                                      \<and> strict_eq (m_subject m) subject) allMarks;
                    markEntry = \<lparr> m_userId = parseInt userId, m_subject = subject,
                                  m_marks = m, m_grade = calculateGrade m,
                                  m_updatedBy = u_id req_user, m_updatedAt = now \<rparr>
                in case existingMarkIndex of
                     Some i \<Rightarrow> (Body 201 markEntry, allMarks[i := markEntry])
                   | None \<Rightarrow> (Body 201 markEntry, allMarks @ [markEntry]))
         | _ \<Rightarrow> (Message 400 ''Marks must be a number between 0 and 100'', allMarks)))"

text \<open>\<^verbatim>\<open>GET /marks/:userId\<close>; \<open>userId\<close> is the path parameter, a string.\<close>

definition marks_get :: "user \<Rightarrow> string \<Rightarrow> mark list \<Rightarrow> mark list response" where
  "marks_get req_user userId allMarks =
     (if u_userType req_user \<noteq> JStr ''Admin'' \<and> u_userType req_user \<noteq> JStr ''Teacher''
         \<and> \<not> num_eq (Some (u_id req_user)) (parseInt (JStr userId)) then
        Message 403 ''Unauthorized to view these marks''
      else
        Body 200 (filter (\<lambda>m. num_eq (m_userId m) (parseInt (JStr userId))) allMarks))"

section \<open>Routines\<close>

record routine =
  r_id :: int
  r_section :: json
  r_day :: json
  r_time :: json
  r_subject :: json
  r_teacherId :: json

text \<open>
  \<^verbatim>\<open>users.find(u => u.id === teacherId && u.userType === 'Teacher')\<close>, as a predicate on the
  stored Identity.
\<close>

definition is_teacher_with_id :: "json \<Rightarrow> user \<Rightarrow> bool" where
  "is_teacher_with_id teacherId u =
     (strict_eq (JNum (of_int (u_id u))) teacherId \<and> u_userType u = JStr ''Teacher'')"

text \<open>\<^verbatim>\<open>POST /routines\<close>.\<close>

definition routines_post ::
  "user \<Rightarrow> json \<Rightarrow> json \<Rightarrow> json \<Rightarrow> json \<Rightarrow> json \<Rightarrow> user list \<Rightarrow> routine list
     \<Rightarrow> routine response \<times> routine list" where
  "routines_post req_user section day time subject teacherId users routines =
     (if u_userType req_user \<noteq> JStr ''Admin'' then
        (Message 403 ''Only Admins can create routines'', routines)
      else if \<not> truthy section \<or> \<not> truthy day \<or> \<not> truthy time \<or> \<not> truthy subject
              \<or> \<not> truthy teacherId then
        (Message 400 ''All fields are required'', routines)
      else
        (case find (is_teacher_with_id teacherId) users of
           None \<Rightarrow> (Message 400 ''Invalid teacherId'', routines)
         | Some teacher \<Rightarrow>
             (let newRoutine = \<lparr> r_id = int (length routines) + 1,
                                  r_section = stored section, r_day = stored day,
                                  r_time = stored time, r_subject = stored subject,
                                  r_teacherId = stored teacherId \<rparr>
              in (Body 201 newRoutine, routines @ [newRoutine]))))"

text \<open>
  \<^verbatim>\<open>PUT /routines/:id\<close>; \<open>id_param\<close> is the path parameter \<^verbatim>\<open>req.params.id\<close>. Past the \<^verbatim>\<open>findIndex\<close> the value of
  \<^verbatim>\<open>parseInt(id)\<close> is a number, the identifier of the record found.
\<close>

definition routines_put ::
  "user \<Rightarrow> string \<Rightarrow> json \<Rightarrow> json \<Rightarrow> json \<Rightarrow> json \<Rightarrow> json \<Rightarrow> user list \<Rightarrow> routine list
     \<Rightarrow> routine response \<times> routine list" where
  "routines_put req_user id_param section day time subject teacherId users routines =
     (if u_userType req_user \<noteq> JStr ''Admin'' then
        (Message 403 ''Only Admins can update routines'', routines)
      else if \<not> truthy section \<or> \<not> truthy day \<or> \<not> truthy time \<or> \<not> truthy subject
              \<or> \<not> truthy teacherId then
        (Message 400 ''All fields are required'', routines)
      else
        (case find (is_teacher_with_id teacherId) users of
           None \<Rightarrow> (Message 400 ''Invalid teacherId'', routines)
         | Some teacher \<Rightarrow>
             (case parseInt (JStr id_param) of
                None \<Rightarrow> (Message 404 ''Routine not found'', routines)
              | Some n \<Rightarrow>
                  (case findIndex (\<lambda>r. r_id r = n) routines of
                     None \<Rightarrow> (Message 404 ''Routine not found'', routines)
                   | Some index \<Rightarrow>
                       (let updated = \<lparr> r_id = n, r_section = stored section,
                                        r_day = stored day, r_time = stored time,
                                        r_subject = stored subject,
                                        r_teacherId = stored teacherId \<rparr>
                        in (Body 200 updated, routines[index := updated]))))))"

text \<open>
  \<^verbatim>\<open>DELETE /routines/:id\<close>; \<^verbatim>\<open>routines.splice(index, 1)\<close> removes the element at \<open>index\<close>.
\<close>

definition routines_delete ::
  "user \<Rightarrow> string \<Rightarrow> routine list \<Rightarrow> unit response \<times> routine list" where
  "routines_delete req_user id_param routines =
     (if u_userType req_user \<noteq> JStr ''Admin'' then
        (Message 403 ''Only Admins can delete routines'', routines)
      else
        (case findIndex (\<lambda>r. num_eq (Some (r_id r)) (parseInt (JStr id_param))) routines of
           None \<Rightarrow> (Message 404 ''Routine not found'', routines)
         | Some index \<Rightarrow>
             (Message 200 ''Routine deleted'', take index routines @ drop (Suc index) routines)))"

text \<open>\<^verbatim>\<open>GET /routines\<close>.\<close>

definition routines_get :: "user \<Rightarrow> routine list \<Rightarrow> routine list response" where
  "routines_get req_user routines =
     (if u_userType req_user = JStr ''Admin'' then Body 200 routines
      else if u_userType req_user = JStr ''Teacher'' then
        Body 200 (filter (\<lambda>r. strict_eq (r_teacherId r) (JNum (of_int (u_id req_user)))) routines)
      else if u_userType req_user = JStr ''Student'' then
        (if \<not> truthy (u_section req_user) then Message 400 ''Student section not found''
         else Body 200 (filter (\<lambda>r. strict_eq (r_section r) (u_section req_user)) routines))
      else Message 403 ''Invalid user type'')"

section \<open>Documents and policies\<close>

text \<open>
  The uploaded file is stored by \<^verbatim>\<open>multer\<close> before the handler runs; \<open>file\<close> is
  \<^verbatim>\<open>req.file\<close>, given by the name under which the file was stored (\<open>None\<close> when the request
  carried no file), and \<^verbatim>\<open>description || ''\<close> keeps a truthy description.
\<close>

record document =
  d_id :: int
  d_fileName :: string
  d_uploadedBy :: int
  d_uploadDate :: string
  d_description :: json

definition documents_post ::
  "user \<Rightarrow> string \<Rightarrow> json \<Rightarrow> string option \<Rightarrow> document list
     \<Rightarrow> document response \<times> document list" where
  "documents_post req_user now description file documents =
     (if u_userType req_user \<noteq> JStr ''Teacher'' then
        (Message 403 ''Only Teachers can upload documents'', documents)
      else
        (case file of
           None \<Rightarrow> (Message 400 ''No file uploaded'', documents)
         | Some filename \<Rightarrow>
             (let newDocument = \<lparr> d_id = int (length documents) + 1, d_fileName = filename,
                                   d_uploadedBy = u_id req_user, d_uploadDate = now,
                                   d_description = (if truthy description
                                                    then stored description
                                                    else JStr []) \<rparr>
              in (Body 201 newDocument, documents @ [newDocument]))))"

text \<open>\<^verbatim>\<open>GET /documents\<close> has no authentication middleware and takes no identity.\<close>

definition documents_get :: "document list \<Rightarrow> document list response" where
  "documents_get documents = Body 200 documents"

text \<open>
  Policies are stored as documents are. The upload goes through \<^verbatim>\<open>fileFilter\<close> first:
  \<open>file\<close> is the lower-cased extension of the original name together with the stored
  name, and a rejected file is answered by \<^verbatim>\<open>handleMulterError\<close> before the handler runs.
\<close>

definition fileFilter :: "string \<Rightarrow> bool" where
  "fileFilter ext = (ext = ''.pdf'' \<or> ext = ''.docx'')"

definition policies_post ::
  "user \<Rightarrow> string \<Rightarrow> json \<Rightarrow> (string \<times> string) option \<Rightarrow> document list
     \<Rightarrow> document response \<times> document list" where
  "policies_post req_user now description file policies =
     (if (case file of None \<Rightarrow> False | Some (ext, filename) \<Rightarrow> \<not> fileFilter ext) then
        (Message 400 ''Only PDF and DOCX files are allowed'', policies)
      else if u_userType req_user \<noteq> JStr ''Admin'' then
        (Message 403 ''Only Admins can upload policies'', policies)
      else
        (case file of
           None \<Rightarrow> (Message 400 ''No file uploaded'', policies)
         | Some (ext, filename) \<Rightarrow>
             (let newPolicy = \<lparr> d_id = int (length policies) + 1, d_fileName = filename,
                                 d_uploadedBy = u_id req_user, d_uploadDate = now,
                                 d_description = (if truthy description
                                                  then stored description
                                                  else JStr []) \<rparr>
              in (Body 201 newPolicy, policies @ [newPolicy]))))"

definition policies_get :: "document list \<Rightarrow> document list response" where
  "policies_get policies = Body 200 policies"

section \<open>Attendance\<close>

record attendance_record =
  a_userId :: json
  a_name :: json
  a_userType :: json
  a_attendance :: json

definition validDays :: "string list" where
  "validDays = [''Monday'', ''Tuesday'', ''Wednesday'', ''Thursday'', ''Friday'', ''Saturday'',
                ''Sunday'']"

text \<open>
  The loop over \<^verbatim>\<open>Object.keys(attendance)\<close>: every key is a valid day with a boolean value.
  The keys of an array are its indices, which are no day names, so an array passes only
  when it is empty.
\<close>

fun attendance_valid :: "json \<Rightarrow> bool" where
  "attendance_valid (JObj kvs) =
     list_all (\<lambda>day. day \<in> set validDays
                  \<and> (case map_of kvs day of None \<Rightarrow> False | Some v \<Rightarrow> typeof v = ''boolean''))
              (map fst kvs)"
| "attendance_valid (JArr xs) = (xs = [])"
| "attendance_valid _ = True"

text \<open>
  \<^verbatim>\<open>existingRecord.attendance = attendance\<close> on the first record found: the record is an
  element of the array, so the array that is written back has it replaced in place.
\<close>

fun replace_first :: "('a \<Rightarrow> bool) \<Rightarrow> ('a \<Rightarrow> 'a) \<Rightarrow> 'a list \<Rightarrow> 'a list" where
  "replace_first p f [] = []"
| "replace_first p f (x # xs) = (if p x then f x # xs else x # replace_first p f xs)"

text \<open>
  \<^verbatim>\<open>POST /attendance\<close>. \<open>req_user\<close> is the decoded token. The response body is the
  spreadsheet built from the records written back, given here by those records.
\<close>

definition attendance_post ::
  "claims \<Rightarrow> json \<Rightarrow> json \<Rightarrow> user list \<Rightarrow> attendance_record list
     \<Rightarrow> attendance_record list response \<times> attendance_record list" where
  "attendance_post req_user userId attendance users attendanceRecords =
     (if p_userType req_user \<noteq> JStr ''Admin'' \<and> p_userType req_user \<noteq> JStr ''Teacher'' then
        (Message 403 ''Only Admins or Teachers can modify attendance'', attendanceRecords)
      else if \<not> truthy userId \<or> \<not> truthy attendance \<or> typeof attendance \<noteq> ''object'' then
        (Message 400 ''userId and attendance object are required'', attendanceRecords)
      else if \<not> attendance_valid attendance then
        (Message 400 ''Attendance must contain valid days with boolean values'',
         attendanceRecords)
      else
        (case find (\<lambda>u. strict_eq (JNum (of_int (u_id u))) userId) users of
           None \<Rightarrow>
             (Message 400 ''Invalid userId or user is not a Teacher/Student'', attendanceRecords)
         | Some user \<Rightarrow>
             if u_userType user \<noteq> JStr ''Teacher'' \<and> u_userType user \<noteq> JStr ''Student'' then
               (Message 400 ''Invalid userId or user is not a Teacher/Student'',
                attendanceRecords)
             else
               (let written =
                      (case find (\<lambda>record. strict_eq (a_userId record) userId)
                                 attendanceRecords of
                         Some existingRecord \<Rightarrow>
                           replace_first (\<lambda>record. strict_eq (a_userId record) userId)
                             (\<lambda>record. record\<lparr> a_attendance := stored attendance \<rparr>)
                             attendanceRecords
                       | None \<Rightarrow>
                           attendanceRecords @
                             [\<lparr> a_userId = stored userId, a_name = u_email user,
                                a_userType = u_userType user,
                                a_attendance = stored attendance \<rparr>])
                in (Body 201 written, written))))"

text \<open>\<^verbatim>\<open>GET /attendance/:userId\<close>.\<close>

definition attendance_get ::
  "claims \<Rightarrow> string \<Rightarrow> attendance_record list \<Rightarrow> attendance_record response" where
  "attendance_get req_user userId attendanceRecords =
     (if p_userType req_user \<noteq> JStr ''Admin'' \<and> p_userType req_user \<noteq> JStr ''Teacher''
         \<and> \<not> num_eq (Some (p_id req_user)) (parseInt (JStr userId)) then
        Message 403 ''Access denied''
      else
        (case find (\<lambda>r. case parseInt (JStr userId) of
                           None \<Rightarrow> False
                         | Some k \<Rightarrow> strict_eq (a_userId r) (JNum (of_int k)))
                   attendanceRecords of
           None \<Rightarrow> Message 404 ''Attendance not found''
         | Some record \<Rightarrow> Body 200 record))"

section \<open>The collection store and the mutating routes\<close>

text \<open>
  One JSON file per collection; every handler reads the file it needs and writes the
  whole array back. A missing file is created holding \<^verbatim>\<open>[]\<close> by the first read, so it
  reads as the empty list, and the store starts with six empty lists.
\<close>

record store =
  s_users :: "user list"
  s_attendance :: "attendance_record list"
  s_routines :: "routine list"
  s_documents :: "document list"
  s_policies :: "document list"
  s_marks :: "mark list"

definition empty_store :: store where
  "empty_store = \<lparr> s_users = [], s_attendance = [], s_routines = [], s_documents = [],
                    s_policies = [], s_marks = [] \<rparr>"

text \<open>
  The requests that can write, as \<^verbatim>\<open>app.js\<close> mounts them: the token taken from the
  \<^verbatim>\<open>Authorization\<close> header (where the route authenticates), the clock in seconds, the date
  string where the handler stamps one, then the path parameter and the body fields.
\<close>

datatype request =
    SignupReq nat json json json json
  | AttendancePostReq "token option" nat json json
  | RoutinesPostReq "token option" nat json json json json json
  | RoutinesPutReq "token option" nat string json json json json json
  | RoutinesDeleteReq "token option" nat string
  | DocumentsPostReq "token option" nat string json "string option"
  | PoliciesPostReq "token option" nat string json "(string \<times> string) option"
  | MarksPostReq "token option" nat string json json json

fun step :: "string \<Rightarrow> store \<Rightarrow> request \<Rightarrow> store" where
  "step secret st (SignupReq now email password userType section) =
     st\<lparr> s_users := snd (signup secret now email password userType section (s_users st)) \<rparr>"
| "step secret st (AttendancePostReq tok now userId attendance) =
     (case attendance_authenticate tok secret now :: unit response + claims of
        Inl r \<Rightarrow> st
      | Inr req_user \<Rightarrow>
          st\<lparr> s_attendance :=
                snd (attendance_post req_user userId attendance (s_users st) (s_attendance st)) \<rparr>)"
| "step secret st (RoutinesPostReq tok now section day time subject teacherId) =
     (case authenticate tok secret now (s_users st) :: unit response + user of
        Inl r \<Rightarrow> st
      | Inr req_user \<Rightarrow>
          st\<lparr> s_routines :=
                snd (routines_post req_user section day time subject teacherId
                       (s_users st) (s_routines st)) \<rparr>)"
| "step secret st (RoutinesPutReq tok now id_param section day time subject teacherId) =
     (case authenticate tok secret now (s_users st) :: unit response + user of
        Inl r \<Rightarrow> st
      | Inr req_user \<Rightarrow>
          st\<lparr> s_routines :=
                snd (routines_put req_user id_param section day time subject teacherId
                       (s_users st) (s_routines st)) \<rparr>)"
| "step secret st (RoutinesDeleteReq tok now id_param) =
     (case authenticate tok secret now (s_users st) :: unit response + user of
        Inl r \<Rightarrow> st
      | Inr req_user \<Rightarrow>
          st\<lparr> s_routines := snd (routines_delete req_user id_param (s_routines st)) \<rparr>)"
| "step secret st (DocumentsPostReq tok now date description file) =
     (case authenticate tok secret now (s_users st) :: unit response + user of
        Inl r \<Rightarrow> st
      | Inr req_user \<Rightarrow>
          st\<lparr> s_documents :=
                snd (documents_post req_user date description file (s_documents st)) \<rparr>)"
| "step secret st (PoliciesPostReq tok now date description file) =
     (case authenticate tok secret now (s_users st) :: unit response + user of
        Inl r \<Rightarrow> st
      | Inr req_user \<Rightarrow>
          st\<lparr> s_policies :=
                snd (policies_post req_user date description file (s_policies st)) \<rparr>)"
| "step secret st (MarksPostReq tok now date userId subject marks) =
     (case authenticate tok secret now (s_users st) :: unit response + user of
        Inl r \<Rightarrow> st
      | Inr req_user \<Rightarrow>
          st\<lparr> s_marks :=
                snd (marks_post req_user date userId subject marks (s_marks st)) \<rparr>)"

text \<open>The store after a sequence of requests, handled one after the other.\<close>

definition run :: "string \<Rightarrow> store \<Rightarrow> request list \<Rightarrow> store" where
  "run secret st reqs = foldl (step secret) st reqs"

section \<open>Invariants of the collections\<close>

text \<open>
  Every routine names a stored Teacher: the invariant behind the \<^verbatim>\<open>teacherId\<close> check.
\<close>

definition teachers_exist :: "user list \<Rightarrow> routine list \<Rightarrow> bool" where
  "teachers_exist users routines
     = (\<forall>r \<in> set routines. \<exists>t \<in> set users. is_teacher_with_id (r_teacherId r) t)"

text \<open>
  The invariant of \<^verbatim>\<open>users.json\<close>: the case-folded emails are pairwise different, an email
  that is a string is not empty, and either all emails are strings or there is at most
  one Identity (the first signup does not call \<^verbatim>\<open>toLowerCase\<close>, so its email may be any truthy
  value).
\<close>

definition emails_inv :: "user list \<Rightarrow> bool" where
  "emails_inv users =
     (distinct (map (\<lambda>u. toLowerCase (u_email u)) users)
      \<and> (\<forall>u \<in> set users. u_email u \<noteq> JStr [])
      \<and> (length users \<le> 1 \<or> (\<forall>u \<in> set users. toLowerCase (u_email u) \<noteq> None)))"

text \<open>
  Identifiers in a collection that is only ever appended to: they count up from one.
\<close>

definition ids_from_one :: "int list \<Rightarrow> bool" where
  "ids_from_one ids = (ids = map int [1..<Suc (length ids)])"

definition append_only_ids :: "store \<Rightarrow> bool" where
  "append_only_ids st = (ids_from_one (map u_id (s_users st))
                         \<and> ids_from_one (map d_id (s_documents st))
                         \<and> ids_from_one (map d_id (s_policies st)))"

text \<open>
  The keyed collections. An attendance record is keyed by its \<^verbatim>\<open>userId\<close>, a number; a mark
  by its \<^verbatim>\<open>userId\<close> and subject, where a \<^verbatim>\<open>userId\<close> that is \<^verbatim>\<open>null\<close> in the file is no key.
\<close>

definition attendance_keys_inv :: "attendance_record list \<Rightarrow> bool" where
  "attendance_keys_inv records =
     (distinct (map a_userId records) \<and> (\<forall>r \<in> set records. \<exists>k. a_userId r = JNum k))"

definition mark_key :: "mark \<Rightarrow> int option \<times> json" where
  "mark_key m = (m_userId m, m_subject m)"

definition numeric_keys :: "mark list \<Rightarrow> (int option \<times> json) list" where
  "numeric_keys allMarks = filter (\<lambda>k. fst k \<noteq> None) (map mark_key allMarks)"

definition keys_inv :: "store \<Rightarrow> bool" where
  "keys_inv st = (attendance_keys_inv (s_attendance st) \<and> distinct (numeric_keys (s_marks st)))"

section \<open>Example data\<close>

definition example_admin :: user where
  "example_admin = \<lparr> u_id = 1, u_email = JStr ''admin@example.com'',
     u_password = Bcrypt ''password123'', u_userType = JStr ''Admin'',
     u_section = JUndefined \<rparr>"

definition example_student :: user where
  "example_student = \<lparr> u_id = 1, u_email = JStr ''student@example.com'',
     u_password = Bcrypt ''password123'', u_userType = JStr ''Student'',
     u_section = JStr ''A'' \<rparr>"

definition example_claims :: claims where
  "example_claims = \<lparr> p_id = 1, p_email = JStr ''student@example.com'',
      p_userType = JStr ''Student'', p_section = JStr ''A'', c_iat = 1000, c_exp = 4600 \<rparr>"

definition example_teacher :: user where
  "example_teacher = \<lparr> u_id = 2, u_email = JStr ''teacher@example.com'',
     u_password = Bcrypt ''password123'', u_userType = JStr ''Teacher'',
     u_section = JUndefined \<rparr>"

definition example_routines :: "routine list" where
  "example_routines =
     [\<lparr> r_id = 1, r_section = JStr ''A'', r_day = JStr ''Monday'', r_time = JStr ''10:00'',
         r_subject = JStr ''Math'', r_teacherId = JNum 2 \<rparr>,
      \<lparr> r_id = 2, r_section = JStr ''B'', r_day = JStr ''Tuesday'', r_time = JStr ''11:00'',
         r_subject = JStr ''Science'', r_teacherId = JNum 3 \<rparr>]"

definition example_admin_token :: token where
  "example_admin_token = Jwt ''secret'' \<lparr> p_id = 1, p_email = JStr ''admin@example.com'',
      p_userType = JStr ''Admin'', p_section = JUndefined, c_iat = 0, c_exp = 3600 \<rparr>"

definition example_requests :: "request list" where
  "example_requests =
     [SignupReq 0 (JStr ''admin@example.com'') (JStr ''password123'') (JStr ''Admin'') JUndefined,
      SignupReq 0 (JStr ''teacher@example.com'') (JStr ''password123'') (JStr ''Teacher'')
        JUndefined,
      RoutinesPostReq (Some example_admin_token) 10 (JStr ''A'') (JStr ''Monday'')
        (JStr ''10:00'') (JStr ''Math'') (JNum 2)]"

definition example_admin_claims :: claims where
  "example_admin_claims = \<lparr> p_id = 1, p_email = JStr ''admin@example.com'',
      p_userType = JStr ''Admin'', p_section = JUndefined, c_iat = 0, c_exp = 3600 \<rparr>"

definition example_overflow_student :: user where
  "example_overflow_student = \<lparr> u_id = 1, u_email = JStr ''student@example.com'',
     u_password = Bcrypt ''password123'', u_userType = JStr ''Student'',
     u_section = JNull \<rparr>"

definition example_overflow_token :: token where
  "example_overflow_token = Jwt ''secret'' \<lparr> p_id = 1, p_email = JStr ''student@example.com'',
      p_userType = JStr ''Student'', p_section = JNull, c_iat = 0, c_exp = 3600 \<rparr>"

definition example_overflow_signup :: request where
  "example_overflow_signup =
     SignupReq 0 (JStr ''student@example.com'') (JStr ''password123'') (JStr ''Student'')
       JPosInfinity"

definition example_teacher_token :: token where
  "example_teacher_token = Jwt ''secret'' \<lparr> p_id = 2, p_email = JStr ''teacher@example.com'',
      p_userType = JStr ''Teacher'', p_section = JUndefined, c_iat = 0, c_exp = 3600 \<rparr>"

definition example_session :: "request list" where
  "example_session = example_requests @
     [DocumentsPostReq (Some example_teacher_token) 10 ''d1'' (JStr ''notes'') (Some ''f.pdf''),
      PoliciesPostReq (Some example_admin_token) 10 ''d2'' JUndefined
        (Some (''.pdf'', ''p.pdf'')),
      AttendancePostReq (Some example_admin_token) 10 (JNum 2)
        (JObj [(''Monday'', JBool True)]),
      AttendancePostReq (Some example_admin_token) 10 (JNum 2)
        (JObj [(''Monday'', JBool False)]),
      MarksPostReq (Some example_admin_token) 10 ''t1'' (JNum 2) (JStr ''Math'') (JNum 85),
      MarksPostReq (Some example_admin_token) 10 ''t2'' (JNum 2) (JStr ''Math'') (JNum 90)]"

definition example_store :: store where
  "example_store =
     \<lparr> s_users = [example_admin, example_teacher],
       s_attendance = [\<lparr> a_userId = JNum 2, a_name = JStr ''teacher@example.com'',
                         a_userType = JStr ''Teacher'',
                         a_attendance = JObj [(''Monday'', JBool False)] \<rparr>],
       s_routines = [example_routines ! 0],
       s_documents = [\<lparr> d_id = 1, d_fileName = ''f.pdf'', d_uploadedBy = 2,
                        d_uploadDate = ''d1'', d_description = JStr ''notes'' \<rparr>],
       s_policies = [\<lparr> d_id = 1, d_fileName = ''p.pdf'', d_uploadedBy = 1,
                       d_uploadDate = ''d2'', d_description = JStr [] \<rparr>],
       s_marks = [\<lparr> m_userId = Some 2, m_subject = JStr ''Math'', m_marks = 90,
                    m_grade = ''A'', m_updatedBy = 1, m_updatedAt = ''t2'' \<rparr>] \<rparr>"

section \<open>Properties\<close>

subsection \<open>Lists\<close>

lemma findIndex_Some:
  "findIndex p xs = Some i \<Longrightarrow> i < length xs \<and> p (xs ! i) \<and> (\<forall>j<i. \<not> p (xs ! j))"
proof (induction xs arbitrary: i)
  case Nil
  then show ?case by simp
next
  case (Cons x xs)
  show ?case
  proof (cases "p x")
    case True
    with Cons.prems show ?thesis by simp
  next
    case False
    with Cons.prems obtain k where k: "findIndex p xs = Some k" "i = Suc k"
      by auto
    from Cons.IH[OF k(1)] k(2) False show ?thesis
      by (auto simp: less_Suc_eq_0_disj)
  qed
qed

lemma findIndex_None: "findIndex p xs = None \<longleftrightarrow> (\<forall>x \<in> set xs. \<not> p x)"
  by (induction xs) auto

subsection \<open>Marks: the grade\<close>

text \<open>
  Claim C2. Whenever \<^verbatim>\<open>POST /marks\<close> succeeds, the submitted marks value is a number \<open>m\<close>
  with \<open>0 \<le> m \<le> 100\<close>, the returned record is in the collection written back, and its
  grade is A from 90, B from 80, C from 70, D from 60 and F below; at the boundaries
  90, 89, 80, 79, 70, 69, 60, 59 the grades are A, B, B, C, C, D, D, F.
\<close>

theorem marks_grade_thresholds:
  assumes "marks_post req_user now userId subject marks allMarks = (Body 201 e, allMarks')"
  shows "(\<exists>m. marks = JNum m \<and> 0 \<le> m \<and> m \<le> 100 \<and> m_marks e = m \<and> e \<in> set allMarks'
            \<and> m_grade e = (if m \<ge> 90 then ''A'' else if m \<ge> 80 then ''B''
                            else if m \<ge> 70 then ''C'' else if m \<ge> 60 then ''D'' else ''F''))
         \<and> calculateGrade 90 = ''A'' \<and> calculateGrade 89 = ''B'' \<and> calculateGrade 80 = ''B''
         \<and> calculateGrade 79 = ''C'' \<and> calculateGrade 70 = ''C'' \<and> calculateGrade 69 = ''D''
         \<and> calculateGrade 60 = ''D'' \<and> calculateGrade 59 = ''F''"
proof -
  have grades: "calculateGrade 90 = ''A'' \<and> calculateGrade 89 = ''B'' \<and> calculateGrade 80 = ''B''
         \<and> calculateGrade 79 = ''C'' \<and> calculateGrade 70 = ''C'' \<and> calculateGrade 69 = ''D''
         \<and> calculateGrade 60 = ''D'' \<and> calculateGrade 59 = ''F''"
    by (simp add: calculateGrade_def)
  have "\<exists>m. marks = JNum m \<and> 0 \<le> m \<and> m \<le> 100 \<and> m_marks e = m \<and> e \<in> set allMarks'
            \<and> m_grade e = (if m \<ge> 90 then ''A'' else if m \<ge> 80 then ''B''
                            else if m \<ge> 70 then ''C'' else if m \<ge> 60 then ''D'' else ''F'')"
    using assms
    by (auto simp: marks_post_def calculateGrade_def Let_def set_update_memI
             dest: findIndex_Some split: if_splits json.splits option.splits)
  with grades show ?thesis by blast
qed

theorem marks_grade_thresholds_witness:
  "marks_post example_admin ''2024-01-01T00:00:00.000Z'' (JNum 2) (JStr ''Math'') (JNum 85) []
     = (Body 201 \<lparr> m_userId = Some 2, m_subject = JStr ''Math'', m_marks = 85,
                    m_grade = ''B'', m_updatedBy = 1,
                    m_updatedAt = ''2024-01-01T00:00:00.000Z'' \<rparr>,
        [\<lparr> m_userId = Some 2, m_subject = JStr ''Math'', m_marks = 85,
            m_grade = ''B'', m_updatedBy = 1,
            m_updatedAt = ''2024-01-01T00:00:00.000Z'' \<rparr>])
   \<and> calculateGrade 85 = ''B''"
proof -
  have h: "marks_post example_admin ''2024-01-01T00:00:00.000Z'' (JNum 2) (JStr ''Math'') (JNum 85) []
     = (Body 201 \<lparr> m_userId = Some 2, m_subject = JStr ''Math'', m_marks = 85,
                    m_grade = ''B'', m_updatedBy = 1,
                    m_updatedAt = ''2024-01-01T00:00:00.000Z'' \<rparr>,
        [\<lparr> m_userId = Some 2, m_subject = JStr ''Math'', m_marks = 85,
            m_grade = ''B'', m_updatedBy = 1,
            m_updatedAt = ''2024-01-01T00:00:00.000Z'' \<rparr>])"
    by (simp add: marks_post_def example_admin_def validSubjects_def array_includes_def
                  calculateGrade_def Let_def)
  from marks_grade_thresholds[OF h] have "calculateGrade 85 = ''B''"
    by (simp add: calculateGrade_def)
  with h show ?thesis by simp
qed

subsection \<open>Marks: validation\<close>

lemma array_includes_validSubjects:
  "array_includes validSubjects subject
     \<longleftrightarrow> subject = JStr ''Math'' \<or> subject = JStr ''Science'' \<or> subject = JStr ''English''"
  by (cases subject) (auto simp: array_includes_def validSubjects_def)



subsection \<open>Marks: one record per key\<close>

text \<open>
  Claim C3, at the input where the code departs from it. The handler stores
  \<^verbatim>\<open>parseInt(userId)\<close> and looks the existing record up by \<^verbatim>\<open>m.userId === parseInt(userId)\<close>.
  For \<^verbatim>\<open>userId = "abc"\<close> the request passes every check, \<^verbatim>\<open>parseInt\<close> gives \<^verbatim>\<open>NaN\<close>, which is
  \<^verbatim>\<open>===\<close> to nothing, so no existing record is ever found: two submissions for the same
  \<^verbatim>\<open>userId\<close> and subject leave two records, each with the \<^verbatim>\<open>userId\<close> that is written as
  \<^verbatim>\<open>null\<close>.
\<close>

theorem marks_post_nan_userId_appends:
  "snd (marks_post example_admin ''t2'' (JStr ''abc'') (JStr ''Math'') (JNum 90)
         (snd (marks_post example_admin ''t1'' (JStr ''abc'') (JStr ''Math'') (JNum 85) [])))
   = [\<lparr> m_userId = None, m_subject = JStr ''Math'', m_marks = 85, m_grade = ''B'',
        m_updatedBy = 1, m_updatedAt = ''t1'' \<rparr>,
      \<lparr> m_userId = None, m_subject = JStr ''Math'', m_marks = 90, m_grade = ''A'',
        m_updatedBy = 1, m_updatedAt = ''t2'' \<rparr>]"
  by (simp add: marks_post_def example_admin_def Let_def array_includes_validSubjects
        calculateGrade_def parseInt_string_def parse_unsigned_def parse_digits_def
        trim_start_def white_space_def is_digit_def digit_of_def)

theorem marks_post_nan_userId_appends_witness:
  "length (snd (marks_post example_admin ''t2'' (JStr ''abc'') (JStr ''Math'') (JNum 90)
         (snd (marks_post example_admin ''t1'' (JStr ''abc'') (JStr ''Math'') (JNum 85) []))))
     = 2"
  using marks_post_nan_userId_appends by simp

subsection \<open>Tokens: the claims minted\<close>

text \<open>
  Claim C9, at the input where the code departs from it. A stored Student with section A
  who signs in with the right password receives a token whose payload is
  \<^verbatim>\<open>{ id, email, userType }\<close>: it has no section (signup does add the section of a Student).
\<close>

theorem signin_token_omits_section:
  "signin ''secret'' 1000 (JStr ''Student@Example.com'') (JStr ''password123'') [example_student]
     = Body 200 (Jwt ''secret'' \<lparr> p_id = 1, p_email = JStr ''student@example.com'',
           p_userType = JStr ''Student'', p_section = JUndefined, c_iat = 1000, c_exp = 4600 \<rparr>)"
  by (simp add: signin_def example_student_def jwt_sign_def lower_char_def)

theorem signin_token_omits_section_witness:
  "\<exists>c. signin ''secret'' 1000 (JStr ''Student@Example.com'') (JStr ''password123'')
          [example_student] = Body 200 (Jwt ''secret'' c)
       \<and> p_userType c = JStr ''Student'' \<and> p_section c = JUndefined"
  using signin_token_omits_section by simp

subsection \<open>Tokens: verification\<close>

text \<open>
  Claim C6, where it fails. A token signed with the configured secret and not yet expired
  verifies, but the shared middleware then looks its \<^verbatim>\<open>id\<close> up in \<^verbatim>\<open>users.json\<close>: with no
  such Identity stored the request is answered 401, and with one stored the middleware
  succeeds. The outcome for the same token depends on the stored users.
\<close>

theorem authenticate_stateless_counterexample:
  "jwt_verify (Jwt ''secret'' example_claims) ''secret'' 2000 = Inr example_claims
   \<and> (authenticate (Some (Jwt ''secret'' example_claims)) ''secret'' 2000 []
        :: unit response + user) = Inl (Message 401 ''Invalid token'')
   \<and> (authenticate (Some (Jwt ''secret'' example_claims)) ''secret'' 2000 [example_student]
        :: unit response + user) = Inr example_student"
  by (simp add: jwt_verify_def authenticate_def example_claims_def example_student_def)

text \<open>
  Claim C6, amended. The attendance middleware is stateless: a presented token is accepted,
  with its claims, exactly when it was signed with the configured secret and the clock is
  before its expiry. The shared middleware accepts a presented token exactly when, in
  addition, an Identity with the token's \<^verbatim>\<open>id\<close> is stored, and it yields that stored
  Identity. In both, every rejection of a presented token is the same answer,
  401 with message Invalid token.
\<close>

theorem authenticate_decision:
  "((attendance_authenticate (Some t) secret now :: unit response + claims) = Inr c
       \<longleftrightarrow> t = Jwt secret c \<and> now < c_exp c)
   \<and> ((authenticate (Some t) secret now users :: unit response + user) = Inr u
       \<longleftrightarrow> (\<exists>c. t = Jwt secret c \<and> now < c_exp c
                \<and> find (\<lambda>u. u_id u = p_id c) users = Some u))
   \<and> (case (attendance_authenticate (Some t) secret now :: unit response + claims) of
         Inl r \<Rightarrow> r = Message 401 ''Invalid token'' | Inr c \<Rightarrow> True)
   \<and> (case (authenticate (Some t) secret now users :: unit response + user) of
         Inl r \<Rightarrow> r = Message 401 ''Invalid token'' | Inr u \<Rightarrow> True)"
  by (cases t)
     (auto simp: attendance_authenticate_def authenticate_def jwt_verify_def
           split: option.splits)

theorem authenticate_decision_witness:
  "(attendance_authenticate (Some (Jwt ''secret'' example_claims)) ''secret'' 2000
      :: unit response + claims) = Inr example_claims
   \<and> (authenticate (Some (Jwt ''secret'' example_claims)) ''secret'' 2000 [example_student]
      :: unit response + user) = Inr example_student"
proof -
  have live: "2000 < c_exp example_claims"
    by (simp add: example_claims_def)
  have stored: "find (\<lambda>u. u_id u = p_id example_claims) [example_student] = Some example_student"
    by (simp add: example_claims_def example_student_def)
  from authenticate_decision[of "Jwt ''secret'' example_claims" "''secret''" 2000
          example_claims "[example_student]" example_student] live stored
  show ?thesis by blast
qed

subsection \<open>Values\<close>

lemma array_includes_VALID_USER_TYPES:
  "array_includes VALID_USER_TYPES t
     \<longleftrightarrow> t = JStr ''Admin'' \<or> t = JStr ''Teacher'' \<or> t = JStr ''Student''"
  by (cases t) (auto simp: array_includes_def VALID_USER_TYPES_def)

lemma step_users:
  "s_users (step secret st req) = s_users st
   \<or> (\<exists>now email password userType section.
         s_users (step secret st req)
           = snd (signup secret now email password userType section (s_users st)))"
proof (cases req)
  case (SignupReq now email password userType sec)
  then show ?thesis by simp blast
qed (simp_all split: sum.splits)

lemma authenticate_member:
  "(authenticate tok secret now users :: unit response + user) = Inr u \<Longrightarrow> u \<in> set users"
  by (auto simp: authenticate_def find_Some_iff split: option.splits sum.splits)

lemma strict_eq_JNum [simp]: "strict_eq v (JNum q) \<longleftrightarrow> v = JNum q"
  by (cases v) auto

lemma strict_eq_JStr [simp]: "strict_eq v (JStr s) \<longleftrightarrow> v = JStr s"
  by (cases v) auto

subsection \<open>Authorization\<close>

text \<open>
  Claim C1, where it fails. Signup tests only that a Student's section is truthy. A
  section that overflows to an infinity is truthy and is written as \<^verbatim>\<open>null\<close>, so the
  Identity is stored as a Student without a section; the middleware attaches that stored
  Identity, and the listing of routines answers this Student 400 instead of the routines
  of a section.
\<close>

theorem student_section_counterexample:
  "signup ''secret'' 0 (JStr ''student@example.com'') (JStr ''password123'') (JStr ''Student'')
       JPosInfinity []
     = (Body 201 example_overflow_token, [example_overflow_student])
   \<and> s_users (run ''secret'' empty_store [example_overflow_signup]) = [example_overflow_student]
   \<and> (authenticate (Some example_overflow_token) ''secret'' 10
          (s_users (run ''secret'' empty_store [example_overflow_signup]))
        :: unit response + user) = Inr example_overflow_student
   \<and> u_userType example_overflow_student = JStr ''Student''
   \<and> routines_get example_overflow_student example_routines
       = Message 400 ''Student section not found''"
  by (simp add: signup_def array_includes_VALID_USER_TYPES bcrypt_hash_def jwt_sign_def Let_def
        example_overflow_token_def example_overflow_student_def example_overflow_signup_def
        run_def empty_store_def authenticate_def jwt_verify_def routines_get_def)

lemma num_eq_Some [simp]: "num_eq (Some a) x \<longleftrightarrow> x = Some a"
  by (cases x) auto

lemma num_eq_Some2 [simp]: "num_eq x (Some a) \<longleftrightarrow> x = Some a"
  by (cases x) auto

lemma routines_write_gate:
  "(u_userType u \<noteq> JStr ''Admin'' \<longrightarrow>
      routines_post u sec day time subject teacherId users routines
        = (Message 403 ''Only Admins can create routines'', routines)
      \<and> routines_put u id_param sec day time subject teacherId users routines
        = (Message 403 ''Only Admins can update routines'', routines)
      \<and> routines_delete u id_param routines
        = (Message 403 ''Only Admins can delete routines'', routines))
   \<and> (u_userType u = JStr ''Admin'' \<longrightarrow>
      status (fst (routines_post u sec day time subject teacherId users routines)) \<noteq> 403
      \<and> status (fst (routines_put u id_param sec day time subject teacherId users routines)) \<noteq> 403
      \<and> status (fst (routines_delete u id_param routines)) \<noteq> 403)"
  by (auto simp: routines_post_def routines_put_def routines_delete_def Let_def
           split: option.splits)

lemma routines_read_scope:
  "(u_userType u = JStr ''Admin'' \<longrightarrow> routines_get u routines = Body 200 routines)
   \<and> (u_userType u = JStr ''Teacher'' \<longrightarrow>
        routines_get u routines
          = Body 200 (filter (\<lambda>r. r_teacherId r = JNum (of_int (u_id u))) routines))
   \<and> (u_userType u = JStr ''Student'' \<and> truthy (u_section u) \<longrightarrow>
        routines_get u routines
          = Body 200 (filter (\<lambda>r. strict_eq (r_section r) (u_section u)) routines))"
  by (auto simp: routines_get_def)

lemma documents_gate:
  "(u_userType u \<noteq> JStr ''Teacher'' \<longrightarrow>
      documents_post u date description file documents
        = (Message 403 ''Only Teachers can upload documents'', documents))
   \<and> (u_userType u = JStr ''Teacher'' \<longrightarrow>
      status (fst (documents_post u date description file documents)) \<noteq> 403)
   \<and> documents_get documents = Body 200 documents"
  by (auto simp: documents_post_def documents_get_def Let_def split: option.splits)

lemma policies_gate:
  "(u_userType u \<noteq> JStr ''Admin'' \<and> (\<forall>ext filename. pfile = Some (ext, filename) \<longrightarrow> fileFilter ext)
      \<longrightarrow> policies_post u date description pfile policies
            = (Message 403 ''Only Admins can upload policies'', policies))
   \<and> (u_userType u = JStr ''Admin'' \<longrightarrow>
      status (fst (policies_post u date description pfile policies)) \<noteq> 403)
   \<and> (\<not> fileFilter ext \<longrightarrow>
      policies_post u date description (Some (ext, filename)) policies
        = (Message 400 ''Only PDF and DOCX files are allowed'', policies))
   \<and> policies_get policies = Body 200 policies"
  by (auto simp: policies_post_def policies_get_def Let_def split: option.splits)

lemma attendance_gate:
  "(p_userType c \<noteq> JStr ''Admin'' \<and> p_userType c \<noteq> JStr ''Teacher'' \<longrightarrow>
      attendance_post c userId attendance users records
        = (Message 403 ''Only Admins or Teachers can modify attendance'', records)
      \<and> (parseInt (JStr uid) \<noteq> Some (p_id c) \<longrightarrow>
            attendance_get c uid records = Message 403 ''Access denied'')
      \<and> (parseInt (JStr uid) = Some (p_id c) \<longrightarrow>
            status (attendance_get c uid records) \<noteq> 403))
   \<and> (p_userType c = JStr ''Admin'' \<or> p_userType c = JStr ''Teacher'' \<longrightarrow>
      status (fst (attendance_post c userId attendance users records)) \<noteq> 403
      \<and> status (attendance_get c uid records) \<noteq> 403)"
  by (auto simp: attendance_post_def attendance_get_def Let_def split: option.splits)

lemma marks_gate:
  "(u_userType u \<noteq> JStr ''Admin'' \<and> u_userType u \<noteq> JStr ''Teacher'' \<longrightarrow>
      marks_post u date userId subject marks allMarks
        = (Message 403 ''Only Admins or Teachers can update marks'', allMarks)
      \<and> (parseInt (JStr uid) \<noteq> Some (u_id u) \<longrightarrow>
            marks_get u uid allMarks = Message 403 ''Unauthorized to view these marks'')
      \<and> (parseInt (JStr uid) = Some (u_id u) \<longrightarrow>
            marks_get u uid allMarks
              = Body 200 (filter (\<lambda>m. m_userId m = Some (u_id u)) allMarks)))
   \<and> (u_userType u = JStr ''Admin'' \<or> u_userType u = JStr ''Teacher'' \<longrightarrow>
      status (fst (marks_post u date userId subject marks allMarks)) \<noteq> 403
      \<and> status (marks_get u uid allMarks) \<noteq> 403)"
  apply (cases marks)
  apply (auto simp: marks_post_def marks_get_def Let_def split: option.splits)
  done

text \<open>
  Claim C1, amended. The decisions of the handlers, by role. Routines: creating, updating
  and deleting are denied with 403 to every Identity that is not an Admin (for a Student
  who creates, with message Only Admins can create routines) and never to an Admin;
  listing gives an Admin all routines, a Teacher those whose \<^verbatim>\<open>teacherId\<close> is the Teacher's
  id, a Student whose stored Identity has a section those whose section is \<^verbatim>\<open>===\<close> that
  section, and a Student whose stored Identity has no section the answer 400 Student
  section not found. Documents: creating is denied to every Identity that is not a Teacher
  and never to a Teacher; listing needs no identity. Policies: creating is denied to every
  Identity that is not an Admin, a file that is neither PDF nor DOCX is refused for
  everyone, listing needs no identity. Attendance and marks: writing is denied to
  everyone but Admin and Teacher; reading is never denied to an Admin or a Teacher, and
  for anyone else it is denied exactly when the requested \<^verbatim>\<open>userId\<close> is not the caller's own
  id.
\<close>

theorem authorization_matrix:
  "((u_userType u \<noteq> JStr ''Admin'' \<longrightarrow>
      routines_post u sec day time subject teacherId users routines
        = (Message 403 ''Only Admins can create routines'', routines)
      \<and> routines_put u id_param sec day time subject teacherId users routines
        = (Message 403 ''Only Admins can update routines'', routines)
      \<and> routines_delete u id_param routines
        = (Message 403 ''Only Admins can delete routines'', routines))
    \<and> (u_userType u = JStr ''Admin'' \<longrightarrow>
      status (fst (routines_post u sec day time subject teacherId users routines)) \<noteq> 403
      \<and> status (fst (routines_put u id_param sec day time subject teacherId users routines)) \<noteq> 403
      \<and> status (fst (routines_delete u id_param routines)) \<noteq> 403))
   \<and> ((u_userType u = JStr ''Admin'' \<longrightarrow> routines_get u routines = Body 200 routines)
    \<and> (u_userType u = JStr ''Teacher'' \<longrightarrow>
        routines_get u routines
          = Body 200 (filter (\<lambda>r. r_teacherId r = JNum (of_int (u_id u))) routines))
    \<and> (u_userType u = JStr ''Student'' \<and> truthy (u_section u) \<longrightarrow>
        routines_get u routines
          = Body 200 (filter (\<lambda>r. strict_eq (r_section r) (u_section u)) routines))
    \<and> (u_userType u = JStr ''Student'' \<and> \<not> truthy (u_section u) \<longrightarrow>
        routines_get u routines = Message 400 ''Student section not found''))
   \<and> ((u_userType u \<noteq> JStr ''Teacher'' \<longrightarrow>
      documents_post u date description upload documents
        = (Message 403 ''Only Teachers can upload documents'', documents))
    \<and> (u_userType u = JStr ''Teacher'' \<longrightarrow>
      status (fst (documents_post u date description upload documents)) \<noteq> 403)
    \<and> documents_get documents = Body 200 documents)
   \<and> ((u_userType u \<noteq> JStr ''Admin'' \<and> (\<forall>ext filename. pfile = Some (ext, filename) \<longrightarrow> fileFilter ext)
      \<longrightarrow> policies_post u date description pfile policies
            = (Message 403 ''Only Admins can upload policies'', policies))
    \<and> (u_userType u = JStr ''Admin'' \<longrightarrow>
      status (fst (policies_post u date description pfile policies)) \<noteq> 403)
    \<and> (\<not> fileFilter ext \<longrightarrow>
      policies_post u date description (Some (ext, filename)) policies
        = (Message 400 ''Only PDF and DOCX files are allowed'', policies))
    \<and> policies_get policies = Body 200 policies)
   \<and> ((p_userType c \<noteq> JStr ''Admin'' \<and> p_userType c \<noteq> JStr ''Teacher'' \<longrightarrow>
      attendance_post c userId attendance users records
        = (Message 403 ''Only Admins or Teachers can modify attendance'', records)
      \<and> (parseInt (JStr uid) \<noteq> Some (p_id c) \<longrightarrow>
            attendance_get c uid records = Message 403 ''Access denied'')
      \<and> (parseInt (JStr uid) = Some (p_id c) \<longrightarrow>
            status (attendance_get c uid records) \<noteq> 403))
    \<and> (p_userType c = JStr ''Admin'' \<or> p_userType c = JStr ''Teacher'' \<longrightarrow>
      status (fst (attendance_post c userId attendance users records)) \<noteq> 403
      \<and> status (attendance_get c uid records) \<noteq> 403))
   \<and> ((u_userType u \<noteq> JStr ''Admin'' \<and> u_userType u \<noteq> JStr ''Teacher'' \<longrightarrow>
      marks_post u date userId subject marks allMarks
        = (Message 403 ''Only Admins or Teachers can update marks'', allMarks)
      \<and> (parseInt (JStr uid) \<noteq> Some (u_id u) \<longrightarrow>
            marks_get u uid allMarks = Message 403 ''Unauthorized to view these marks'')
      \<and> (parseInt (JStr uid) = Some (u_id u) \<longrightarrow>
            marks_get u uid allMarks
              = Body 200 (filter (\<lambda>m. m_userId m = Some (u_id u)) allMarks)))
    \<and> (u_userType u = JStr ''Admin'' \<or> u_userType u = JStr ''Teacher'' \<longrightarrow>
      status (fst (marks_post u date userId subject marks allMarks)) \<noteq> 403
      \<and> status (marks_get u uid allMarks) \<noteq> 403))"
proof -
  show ?thesis
    apply (intro conjI)
          apply (rule routines_write_gate[THEN conjunct1])
          apply (rule routines_write_gate[THEN conjunct2])
    subgoal by (simp add: routines_get_def)
    subgoal by (simp add: routines_get_def)
    subgoal by (simp add: routines_get_def)
    subgoal by (simp add: routines_get_def)
    using documents_gate[of u date description upload documents]
          policies_gate[of u pfile date description policies ext filename]
          attendance_gate[of c userId attendance users records uid]
          marks_gate[of u date userId subject marks allMarks uid]
    by blast+
qed

lemma example_parseInt:
  "parseInt (JStr ''1'') = Some 1" "parseInt (JStr ''2'') = Some 2"
  by (simp_all add: parseInt_string_def parse_unsigned_def parse_digits_def trim_start_def
        white_space_def is_digit_def digit_of_def digits_value_def to_double_def)

theorem authorization_matrix_witness:
  "routines_post example_student (JStr ''A'') (JStr ''Monday'') (JStr ''10:00'') (JStr ''Math'')
      (JNum 2) [example_student, example_teacher] example_routines
     = (Message 403 ''Only Admins can create routines'', example_routines)
   \<and> routines_get example_student example_routines = Body 200 [example_routines ! 0]
   \<and> routines_get example_overflow_student example_routines
       = Message 400 ''Student section not found''
   \<and> routines_get example_teacher example_routines = Body 200 [example_routines ! 0]
   \<and> routines_get example_admin example_routines = Body 200 example_routines
   \<and> status (fst (routines_delete example_admin ''1'' example_routines)) \<noteq> 403
   \<and> documents_post example_admin ''d'' (JStr ''notes'') (Some ''f.pdf'') []
     = (Message 403 ''Only Teachers can upload documents'', [])
   \<and> documents_post example_student ''d'' (JStr ''notes'') (Some ''f.pdf'') []
     = (Message 403 ''Only Teachers can upload documents'', [])
   \<and> status (fst (documents_post example_teacher ''d'' (JStr ''notes'') (Some ''f.pdf'') [])) \<noteq> 403
   \<and> policies_post example_teacher ''d'' (JStr ''rules'') (Some (''.pdf'', ''p.pdf'')) []
     = (Message 403 ''Only Admins can upload policies'', [])
   \<and> status (fst (policies_post example_admin ''d'' (JStr ''rules'') (Some (''.pdf'', ''p.pdf'')) []))
       \<noteq> 403
   \<and> policies_post example_admin ''d'' (JStr ''rules'') (Some (''.txt'', ''p.txt'')) []
     = (Message 400 ''Only PDF and DOCX files are allowed'', [])
   \<and> attendance_post example_claims (JNum 1) (JObj [(''Monday'', JBool True)])
        [example_student] []
     = (Message 403 ''Only Admins or Teachers can modify attendance'', [])
   \<and> attendance_get example_claims ''2'' [] = Message 403 ''Access denied''
   \<and> status (attendance_get example_claims ''1'' []) \<noteq> 403
   \<and> status (attendance_get example_admin_claims ''2'' []) \<noteq> 403
   \<and> marks_post example_student ''d'' (JNum 1) (JStr ''Math'') (JNum 85) []
     = (Message 403 ''Only Admins or Teachers can update marks'', [])
   \<and> marks_get example_student ''2'' [] = Message 403 ''Unauthorized to view these marks''
   \<and> marks_get example_student ''1'' [] = Body 200 []
   \<and> status (marks_get example_teacher ''1'' []) \<noteq> 403"
proof -
  have roles: "u_userType example_student = JStr ''Student''"
              "u_userType example_overflow_student = JStr ''Student''"
              "u_userType example_teacher = JStr ''Teacher''"
              "u_userType example_admin = JStr ''Admin''"
              "p_userType example_claims = JStr ''Student''"
              "p_userType example_admin_claims = JStr ''Admin''"
    by (simp_all add: example_student_def example_teacher_def example_admin_def
          example_overflow_student_def example_claims_def example_admin_claims_def)
  have sections: "truthy (u_section example_student)"
                 "\<not> truthy (u_section example_overflow_student)"
    by (simp_all add: example_student_def example_overflow_student_def)
  have ids: "u_id example_student = 1" "p_id example_claims = 1"
    by (simp_all add: example_student_def example_claims_def)
  have filters:
    "filter (\<lambda>r. strict_eq (r_section r) (u_section example_student)) example_routines
       = [example_routines ! 0]"
    "filter (\<lambda>r. r_teacherId r = JNum (of_int (u_id example_teacher))) example_routines
       = [example_routines ! 0]"
    by (simp_all add: example_routines_def example_student_def example_teacher_def)
  have filt: "fileFilter ''.pdf''" "\<not> fileFilter ''.txt''"
    by (simp_all add: fileFilter_def)
  note student = authorization_matrix[where u = example_student and c = example_claims
      and routines = example_routines and sec = "JStr ''A''" and day = "JStr ''Monday''"
      and time = "JStr ''10:00''" and subject = "JStr ''Math''" and teacherId = "JNum 2"
      and users = "[example_student, example_teacher]"
      and date = "''d''" and description = "JStr ''notes''" and upload = "Some ''f.pdf''"
      and documents = "[]" and userId = "JNum 1" and marks = "JNum 85" and allMarks = "[]"]
  from student[where uid = "''2''"] roles ids example_parseInt have s2:
    "marks_get example_student ''2'' [] = Message 403 ''Unauthorized to view these marks''"
    by simp
  from student[where uid = "''1''"] roles ids example_parseInt have s1:
    "marks_get example_student ''1'' [] = Body 200 []"
    by simp
  from student roles sections filters have s:
    "routines_post example_student (JStr ''A'') (JStr ''Monday'') (JStr ''10:00'') (JStr ''Math'')
      (JNum 2) [example_student, example_teacher] example_routines
     = (Message 403 ''Only Admins can create routines'', example_routines)"
    "routines_get example_student example_routines = Body 200 [example_routines ! 0]"
    "documents_post example_student ''d'' (JStr ''notes'') (Some ''f.pdf'') []
     = (Message 403 ''Only Teachers can upload documents'', [])"
    "marks_post example_student ''d'' (JNum 1) (JStr ''Math'') (JNum 85) []
     = (Message 403 ''Only Admins or Teachers can update marks'', [])"
    by simp_all
  from authorization_matrix[where u = example_overflow_student and routines = example_routines]
    roles sections
  have o: "routines_get example_overflow_student example_routines
       = Message 400 ''Student section not found''"
    by simp
  note teacher = authorization_matrix[where u = example_teacher and routines = example_routines
      and date = "''d''" and upload = "Some ''f.pdf''" and documents = "[]"
      and pfile = "Some (''.pdf'', ''p.pdf'')" and policies = "[]" and uid = "''1''"
      and allMarks = "[]"]
  from teacher[where description = "JStr ''notes''"] roles filters have t:
    "routines_get example_teacher example_routines = Body 200 [example_routines ! 0]"
    "status (fst (documents_post example_teacher ''d'' (JStr ''notes'') (Some ''f.pdf'') [])) \<noteq> 403"
    "status (marks_get example_teacher ''1'' []) \<noteq> 403"
    by simp_all
  from teacher[where description = "JStr ''rules''"] roles filt have tp:
    "policies_post example_teacher ''d'' (JStr ''rules'') (Some (''.pdf'', ''p.pdf'')) []
     = (Message 403 ''Only Admins can upload policies'', [])"
    by simp
  note admin = authorization_matrix[where u = example_admin and routines = example_routines
      and date = "''d''" and upload = "Some ''f.pdf''" and documents = "[]"
      and pfile = "Some (''.pdf'', ''p.pdf'')" and policies = "[]" and id_param = "''1''"
      and ext = "''.txt''" and filename = "''p.txt''" and c = example_admin_claims
      and uid = "''2''" and records = "[]"]
  from admin[where description = "JStr ''notes''"] roles have a:
    "routines_get example_admin example_routines = Body 200 example_routines"
    "status (fst (routines_delete example_admin ''1'' example_routines)) \<noteq> 403"
    "documents_post example_admin ''d'' (JStr ''notes'') (Some ''f.pdf'') []
     = (Message 403 ''Only Teachers can upload documents'', [])"
    "status (attendance_get example_admin_claims ''2'' []) \<noteq> 403"
    by simp_all
  from admin[where description = "JStr ''rules''"] roles filt have ap:
    "status (fst (policies_post example_admin ''d'' (JStr ''rules'') (Some (''.pdf'', ''p.pdf'')) []))
       \<noteq> 403"
    "policies_post example_admin ''d'' (JStr ''rules'') (Some (''.txt'', ''p.txt'')) []
     = (Message 400 ''Only PDF and DOCX files are allowed'', [])"
    by simp_all
  note att = authorization_matrix[where c = example_claims and userId = "JNum 1"
      and attendance = "JObj [(''Monday'', JBool True)]" and users = "[example_student]"
      and records = "[]"]
  from att[where uid = "''2''"] roles ids example_parseInt have c2:
    "attendance_post example_claims (JNum 1) (JObj [(''Monday'', JBool True)])
        [example_student] []
     = (Message 403 ''Only Admins or Teachers can modify attendance'', [])"
    "attendance_get example_claims ''2'' [] = Message 403 ''Access denied''"
    by simp_all
  from att[where uid = "''1''"] roles ids example_parseInt have c1:
    "status (attendance_get example_claims ''1'' []) \<noteq> 403"
    by simp
  from s s1 s2 o t tp a ap c1 c2 show ?thesis by simp
qed

subsection \<open>Rejected requests write nothing\<close>

lemma signup_created_or_unchanged:
  "snd (signup secret now email password userType sec users) = users
   \<or> (\<exists>pw. password = JStr pw \<and> truthy email \<and> find_by_email users email = Inr None
         \<and> status (fst (signup secret now email password userType sec users)) \<in> {201, 500}
         \<and> snd (signup secret now email password userType sec users)
             = users @ [\<lparr> u_id = int (length users) + 1, u_email = stored email,
                              u_password = bcrypt_hash pw, u_userType = stored userType,
                              u_section = (if userType = JStr ''Student'' then stored sec
                                           else JUndefined) \<rparr>])"
proof (cases "find_by_email users email")
  case (Inl e)
  then show ?thesis by (simp add: signup_def)
next
  case (Inr found)
  show ?thesis
  proof (cases found)
    case (Some u)
    with Inr show ?thesis by (simp add: signup_def)
  next
    case None
    with Inr show ?thesis
      by (cases password) (simp_all add: signup_def Let_def split: sum.splits)
  qed
qed

lemma signup_success:
  assumes "status (fst (signup secret now email password userType sec users)) = 201"
  shows "\<exists>pw. password = JStr pw \<and> truthy email \<and> find_by_email users email = Inr None
           \<and> snd (signup secret now email password userType sec users)
               = users @ [\<lparr> u_id = int (length users) + 1, u_email = stored email,
                      u_password = bcrypt_hash pw, u_userType = stored userType,
                      u_section = (if userType = JStr ''Student'' then stored sec
                                   else JUndefined) \<rparr>]"
proof (cases "find_by_email users email")
  case (Inl e)
  with assms show ?thesis by (simp add: signup_def split: if_splits)
next
  case (Inr found)
  show ?thesis
  proof (cases found)
    case (Some u)
    with Inr assms show ?thesis by (simp add: signup_def split: if_splits)
  next
    case None
    with Inr assms show ?thesis
      by (cases password) (simp_all add: signup_def Let_def split: if_splits sum.splits)
  qed
qed

lemma signup_rejected_no_write:
  "status (fst (signup secret now email password userType sec users)) \<in> {400, 403, 404}
     \<Longrightarrow> snd (signup secret now email password userType sec users) = users"
  using signup_created_or_unchanged[of secret now email password userType sec users]
  by auto

lemma signup_sign_failure_writes:
  "signup [] 0 (JStr ''admin@example.com'') (JStr ''password123'') (JStr ''Admin'') JUndefined []
     = (Message 500 ''Server error'', [example_admin])"
  by (simp add: signup_def array_includes_VALID_USER_TYPES bcrypt_hash_def jwt_sign_def
        example_admin_def)

lemma attendance_post_failure_no_write:
  "status (fst (attendance_post c userId attendance users records)) \<noteq> 201
     \<Longrightarrow> snd (attendance_post c userId attendance users records) = records"
  by (auto simp: attendance_post_def Let_def split: option.splits)

lemma routines_post_failure_no_write:
  "status (fst (routines_post u sec day time subject teacherId users routines)) \<noteq> 201
     \<Longrightarrow> snd (routines_post u sec day time subject teacherId users routines) = routines"
  by (auto simp: routines_post_def Let_def split: option.splits)

lemma routines_put_failure_no_write:
  "status (fst (routines_put u id_param sec day time subject teacherId users routines)) \<noteq> 200
     \<Longrightarrow> snd (routines_put u id_param sec day time subject teacherId users routines) = routines"
  by (auto simp: routines_put_def Let_def split: option.splits)

lemma routines_delete_failure_no_write:
  "status (fst (routines_delete u id_param routines)) \<noteq> 200
     \<Longrightarrow> snd (routines_delete u id_param routines) = routines"
  by (auto simp: routines_delete_def split: option.splits)

lemma documents_post_failure_no_write:
  "status (fst (documents_post u date description upload documents)) \<noteq> 201
     \<Longrightarrow> snd (documents_post u date description upload documents) = documents"
  by (auto simp: documents_post_def Let_def split: option.splits)

lemma policies_post_failure_no_write:
  "status (fst (policies_post u date description pfile policies)) \<noteq> 201
     \<Longrightarrow> snd (policies_post u date description pfile policies) = policies"
  by (auto simp: policies_post_def Let_def split: option.splits)

lemma marks_post_failure_no_write:
  "status (fst (marks_post u date userId subject marks allMarks)) \<noteq> 201
     \<Longrightarrow> snd (marks_post u date userId subject marks allMarks) = allMarks"
  by (cases marks) (auto simp: marks_post_def Let_def split: option.splits)

lemma step_unauthenticated:
  "(authenticate tok secret now (s_users st) :: unit response + user) = Inl r \<Longrightarrow>
     step secret st (RoutinesPostReq tok now sec day time subject teacherId) = st
   \<and> step secret st (RoutinesPutReq tok now id_param sec day time subject teacherId) = st
   \<and> step secret st (RoutinesDeleteReq tok now id_param) = st
   \<and> step secret st (DocumentsPostReq tok now date description upload) = st
   \<and> step secret st (PoliciesPostReq tok now date description pfile) = st
   \<and> step secret st (MarksPostReq tok now date userId subject marks) = st"
  by simp

text \<open>
  Claim C7. For every handler that writes (signup, attendance, routines create, update
  and delete, documents, policies, marks): when the answer is 400 or 403, the answers of a
  failed validation or authorization check, or the 404 of a routine that is not found,
  the collection written back is the collection that was read. (The 500 of signup is
  another matter: \<open>signup_sign_failure_writes\<close>.)
\<close>

theorem failed_request_writes_nothing:
  "(status (fst (signup secret now email password userType sec users)) \<in> {400, 403, 404}
      \<longrightarrow> snd (signup secret now email password userType sec users) = users)
   \<and> (status (fst (attendance_post c userId attendance users records)) \<in> {400, 403, 404}
      \<longrightarrow> snd (attendance_post c userId attendance users records) = records)
   \<and> (status (fst (routines_post u sec day time subject teacherId users routines))
         \<in> {400, 403, 404}
      \<longrightarrow> snd (routines_post u sec day time subject teacherId users routines) = routines)
   \<and> (status (fst (routines_put u id_param sec day time subject teacherId users routines))
         \<in> {400, 403, 404}
      \<longrightarrow> snd (routines_put u id_param sec day time subject teacherId users routines) = routines)
   \<and> (status (fst (routines_delete u id_param routines)) \<in> {400, 403, 404}
      \<longrightarrow> snd (routines_delete u id_param routines) = routines)
   \<and> (status (fst (documents_post u date description upload documents)) \<in> {400, 403, 404}
      \<longrightarrow> snd (documents_post u date description upload documents) = documents)
   \<and> (status (fst (policies_post u date description pfile policies)) \<in> {400, 403, 404}
      \<longrightarrow> snd (policies_post u date description pfile policies) = policies)
   \<and> (status (fst (marks_post u date userId subject marks allMarks)) \<in> {400, 403, 404}
      \<longrightarrow> snd (marks_post u date userId subject marks allMarks) = allMarks)"
proof -
  have ne: "s \<noteq> 201 \<and> s \<noteq> 200" if "s \<in> {400, 403, 404}" for s :: nat
    using that by auto
  show ?thesis
    by (intro conjI impI)
       (erule signup_rejected_no_write,
        (drule ne, (rule attendance_post_failure_no_write routines_post_failure_no_write
           routines_put_failure_no_write routines_delete_failure_no_write
           documents_post_failure_no_write policies_post_failure_no_write
           marks_post_failure_no_write), simp)+)
qed

lemma example_parseInt_9: "parseInt (JStr ''9'') = Some 9"
  by (simp add: parseInt_string_def parse_unsigned_def parse_digits_def trim_start_def
        white_space_def is_digit_def digit_of_def digits_value_def to_double_def)

theorem failed_request_writes_nothing_witness:
  "snd (signup ''secret'' 0 (JStr ''STUDENT@example.com'') (JStr ''pw'') (JStr ''Teacher'')
            JUndefined [example_student]) = [example_student]
   \<and> snd (attendance_post example_claims (JNum 1) (JObj [(''Monday'', JBool True)])
            [example_student] []) = []
   \<and> snd (routines_post example_student (JStr ''A'') (JStr ''Monday'') (JStr ''10:00'')
          (JStr ''Math'') (JNum 2) [example_student, example_teacher] example_routines)
     = example_routines
   \<and> snd (routines_put example_admin ''9'' (JStr ''A'') (JStr ''Monday'') (JStr ''10:00'')
          (JStr ''Math'') (JNum 2) [example_admin, example_teacher] example_routines)
     = example_routines
   \<and> snd (routines_delete example_admin ''9'' example_routines) = example_routines
   \<and> snd (documents_post example_admin ''d'' (JStr ''notes'') (Some ''f.pdf'') []) = []
   \<and> snd (policies_post example_teacher ''d'' (JStr ''rules'') (Some (''.pdf'', ''p.pdf'')) [])
     = []
   \<and> snd (marks_post example_admin ''d'' (JNum 2) (JStr ''Math'') (JNum 150) []) = []"
proof -
  have 1: "status (fst (signup ''secret'' 0 (JStr ''STUDENT@example.com'') (JStr ''pw'')
      (JStr ''Teacher'') JUndefined [example_student])) \<in> {400, 403, 404}"
    by (simp add: signup_def example_student_def array_includes_VALID_USER_TYPES lower_char_def)
  have 2: "status (fst (attendance_post example_claims (JNum 1)
      (JObj [(''Monday'', JBool True)]) [example_student] [])) \<in> {400, 403, 404}"
    by (simp add: attendance_post_def example_claims_def)
  have 3: "status (fst (routines_post example_student (JStr ''A'') (JStr ''Monday'')
      (JStr ''10:00'') (JStr ''Math'') (JNum 2) [example_student, example_teacher]
      example_routines)) \<in> {400, 403, 404}"
    by (simp add: routines_post_def example_student_def)
  have 4: "status (fst (routines_put example_admin ''9'' (JStr ''A'') (JStr ''Monday'')
      (JStr ''10:00'') (JStr ''Math'') (JNum 2) [example_admin, example_teacher]
      example_routines)) \<in> {400, 403, 404}"
    using example_parseInt_9
    by (simp add: routines_put_def example_admin_def example_teacher_def example_routines_def
          is_teacher_with_id_def)
  have 5: "status (fst (routines_delete example_admin ''9'' example_routines))
      \<in> {400, 403, 404}"
    using example_parseInt_9
    by (simp add: routines_delete_def example_admin_def example_routines_def)
  have 6: "status (fst (documents_post example_admin ''d'' (JStr ''notes'') (Some ''f.pdf'') []))
      \<in> {400, 403, 404}"
    by (simp add: documents_post_def example_admin_def)
  have 7: "status (fst (policies_post example_teacher ''d'' (JStr ''rules'')
      (Some (''.pdf'', ''p.pdf'')) [])) \<in> {400, 403, 404}"
    by (simp add: policies_post_def example_teacher_def fileFilter_def)
  have 8: "status (fst (marks_post example_admin ''d'' (JNum 2) (JStr ''Math'') (JNum 150) []))
      \<in> {400, 403, 404}"
    by (simp add: marks_post_def example_admin_def)
  note w = failed_request_writes_nothing
  from 1 w[where secret = "''secret''" and now = 0
        and email = "JStr ''STUDENT@example.com''" and password = "JStr ''pw''"
        and userType = "JStr ''Teacher''" and sec = JUndefined and users = "[example_student]"]
  have a: "snd (signup ''secret'' 0 (JStr ''STUDENT@example.com'') (JStr ''pw'') (JStr ''Teacher'')
            JUndefined [example_student]) = [example_student]"
    by simp
  from 2 w[where c = example_claims and userId = "JNum 1"
        and attendance = "JObj [(''Monday'', JBool True)]" and users = "[example_student]"
        and records = "[]"]
  have b: "snd (attendance_post example_claims (JNum 1) (JObj [(''Monday'', JBool True)])
            [example_student] []) = []"
    by simp
  from 3 w[where u = example_student and sec = "JStr ''A''"
        and day = "JStr ''Monday''" and time = "JStr ''10:00''" and subject = "JStr ''Math''"
        and teacherId = "JNum 2" and users = "[example_student, example_teacher]"
        and routines = example_routines]
  have c: "snd (routines_post example_student (JStr ''A'') (JStr ''Monday'') (JStr ''10:00'')
          (JStr ''Math'') (JNum 2) [example_student, example_teacher] example_routines)
     = example_routines"
    by simp
  note adm = w[where u = example_admin and sec = "JStr ''A''"
        and day = "JStr ''Monday''" and time = "JStr ''10:00''" and subject = "JStr ''Math''"
        and teacherId = "JNum 2" and users = "[example_admin, example_teacher]"
        and routines = example_routines and id_param = "''9''" and date = "''d''"
        and description = "JStr ''notes''" and upload = "Some ''f.pdf''" and documents = "[]"
        and userId = "JNum 2" and marks = "JNum 150" and allMarks = "[]"]
  from 4 adm have d: "snd (routines_put example_admin ''9'' (JStr ''A'') (JStr ''Monday'')
      (JStr ''10:00'') (JStr ''Math'') (JNum 2) [example_admin, example_teacher]
      example_routines) = example_routines"
    by simp
  from 5 adm have e: "snd (routines_delete example_admin ''9'' example_routines)
      = example_routines"
    by simp
  from 6 adm have f: "snd (documents_post example_admin ''d'' (JStr ''notes'') (Some ''f.pdf'') [])
      = []"
    by simp
  from 8 adm have h: "snd (marks_post example_admin ''d'' (JNum 2) (JStr ''Math'') (JNum 150) [])
      = []"
    by simp
  from 7 w[where u = example_teacher and date = "''d''" and description = "JStr ''rules''"
        and pfile = "Some (''.pdf'', ''p.pdf'')" and policies = "[]"]
  have g: "snd (policies_post example_teacher ''d'' (JStr ''rules'')
      (Some (''.pdf'', ''p.pdf'')) []) = []"
    by simp
  from a b c d e f g h show ?thesis by simp
qed

subsection \<open>Routines name a Teacher\<close>

lemma strict_eq_JNum_left [simp]: "strict_eq (JNum q) v \<longleftrightarrow> v = JNum q"
  by (cases v) auto

lemma is_teacher_with_id_iff:
  "is_teacher_with_id teacherId t
     \<longleftrightarrow> teacherId = JNum (of_int (u_id t)) \<and> u_userType t = JStr ''Teacher''"
  by (simp add: is_teacher_with_id_def)

lemma is_teacher_stored:
  "is_teacher_with_id teacherId t \<Longrightarrow> stored teacherId = teacherId"
  by (auto simp: is_teacher_with_id_iff)

lemma find_None_iff2: "find p xs = None \<longleftrightarrow> (\<forall>x\<in>set xs. \<not> p x)"
  by (induction xs) auto

lemma find_Some_member: "find p xs = Some x \<Longrightarrow> x \<in> set xs \<and> p x"
  by (induction xs) (auto split: if_splits)

lemma signup_users_grow:
  "set users \<subseteq> set (snd (signup secret now email password userType sec users))"
  by (auto simp: signup_def Let_def split: sum.splits option.splits json.splits)

lemma step_users_grow: "set (s_users st) \<subseteq> set (s_users (step secret st req))"
proof (cases req)
  case (SignupReq now email password userType sec)
  then show ?thesis using signup_users_grow by simp
qed (simp_all split: sum.splits)

lemma teachers_exist_mono:
  "teachers_exist users routines \<Longrightarrow> set users \<subseteq> set users' \<Longrightarrow> teachers_exist users' routines"
  unfolding teachers_exist_def by blast

lemma routines_post_teachers:
  assumes "teachers_exist users routines"
  shows "teachers_exist users
           (snd (routines_post u sec day time subject teacherId users routines))"
  using assms
  by (auto simp: routines_post_def Let_def teachers_exist_def is_teacher_stored
           dest!: find_Some_member split: option.splits)

lemma routines_put_teachers:
  assumes "teachers_exist users routines"
  shows "teachers_exist users
           (snd (routines_put u id_param sec day time subject teacherId users routines))"
proof -
  have upd: "teachers_exist users (routines[i := r])"
    if "\<exists>t \<in> set users. is_teacher_with_id (r_teacherId r) t" for i r
    using assms that set_update_subset_insert[of routines i r]
    unfolding teachers_exist_def by blast
  show ?thesis
    using assms
    by (auto simp: routines_put_def Let_def is_teacher_stored intro!: upd
             dest!: find_Some_member split: option.splits)
qed

lemma routines_delete_teachers:
  assumes "teachers_exist users routines"
  shows "teachers_exist users (snd (routines_delete u id_param routines))"
  using assms
  by (auto simp: routines_delete_def teachers_exist_def
           dest: in_set_takeD in_set_dropD split: option.splits)

lemma step_teachers:
  assumes "teachers_exist (s_users st) (s_routines st)"
  shows "teachers_exist (s_users (step secret st req)) (s_routines (step secret st req))"
proof (cases req)
  case (SignupReq now email password userType sec)
  then show ?thesis
    using teachers_exist_mono[OF assms signup_users_grow] by simp
next
  case (RoutinesPostReq tok now sec day time subject teacherId)
  then show ?thesis
    using assms routines_post_teachers by (simp split: sum.splits)
next
  case (RoutinesPutReq tok now id_param sec day time subject teacherId)
  then show ?thesis
    using assms routines_put_teachers by (simp split: sum.splits)
next
  case (RoutinesDeleteReq tok now id_param)
  then show ?thesis
    using assms routines_delete_teachers by (simp split: sum.splits)
qed (use assms in \<open>simp_all split: sum.splits\<close>)

lemma run_teachers:
  "teachers_exist (s_users st) (s_routines st)
     \<Longrightarrow> teachers_exist (s_users (run secret st reqs)) (s_routines (run secret st reqs))"
  unfolding run_def
  by (induction reqs arbitrary: st) (auto intro: step_teachers)

lemma reachable_teachers:
  "teachers_exist (s_users (run secret empty_store reqs)) (s_routines (run secret empty_store reqs))"
  by (rule run_teachers) (simp add: empty_store_def teachers_exist_def)

text \<open>
  Claim C10. When no stored Identity is a Teacher whose id is the supplied \<^verbatim>\<open>teacherId\<close>,
  creating and updating a routine both fail (400, or 403 for a caller who is not an Admin)
  and store nothing; for an Admin who supplied all five fields the answer is
  400 Invalid teacherId. Consequently, after any sequence of requests from the empty
  store, every stored routine's \<^verbatim>\<open>teacherId\<close> is the id of a stored Teacher.
\<close>

theorem routines_teacherId_gate:
  "(\<not> (\<exists>t \<in> set users. teacherId = JNum (of_int (u_id t)) \<and> u_userType t = JStr ''Teacher'')
      \<longrightarrow> status (fst (routines_post u sec day time subject teacherId users routines)) \<in> {400, 403}
          \<and> snd (routines_post u sec day time subject teacherId users routines) = routines
          \<and> status (fst (routines_put u id_param sec day time subject teacherId users routines))
               \<in> {400, 403}
          \<and> snd (routines_put u id_param sec day time subject teacherId users routines) = routines
          \<and> (u_userType u = JStr ''Admin'' \<and> truthy sec \<and> truthy day \<and> truthy time
                \<and> truthy subject \<and> truthy teacherId
              \<longrightarrow> routines_post u sec day time subject teacherId users routines
                    = (Message 400 ''Invalid teacherId'', routines)
                  \<and> routines_put u id_param sec day time subject teacherId users routines
                    = (Message 400 ''Invalid teacherId'', routines)))
   \<and> (\<forall>r \<in> set (s_routines (run secret empty_store reqs)).
         \<exists>t \<in> set (s_users (run secret empty_store reqs)).
            r_teacherId r = JNum (of_int (u_id t)) \<and> u_userType t = JStr ''Teacher'')"
proof -
  have gate: "find (is_teacher_with_id teacherId) users = None"
    if "\<not> (\<exists>t \<in> set users. teacherId = JNum (of_int (u_id t)) \<and> u_userType t = JStr ''Teacher'')"
    using that by (simp add: find_None_iff2 is_teacher_with_id_iff)
  have stored: "\<forall>r \<in> set (s_routines (run secret empty_store reqs)).
         \<exists>t \<in> set (s_users (run secret empty_store reqs)).
            r_teacherId r = JNum (of_int (u_id t)) \<and> u_userType t = JStr ''Teacher''"
    using reachable_teachers[of secret reqs]
    by (simp add: teachers_exist_def is_teacher_with_id_iff)
  show ?thesis
    using gate stored
    by (auto simp: routines_post_def routines_put_def)
qed

lemma example_requests_run:
  "run ''secret'' empty_store example_requests
     = \<lparr> s_users = [example_admin, example_teacher], s_attendance = [],
         s_routines = [example_routines ! 0], s_documents = [], s_policies = [], s_marks = [] \<rparr>"
  by (simp add: run_def empty_store_def example_requests_def signup_def
        array_includes_VALID_USER_TYPES lower_char_def bcrypt_hash_def Let_def
        example_admin_def example_teacher_def example_routines_def example_admin_token_def
        authenticate_def jwt_verify_def jwt_sign_def routines_post_def is_teacher_with_id_def)

theorem routines_teacherId_gate_witness:
  "routines_post example_admin (JStr ''A'') (JStr ''Monday'') (JStr ''10:00'') (JStr ''Math'')
      (JNum 5) [example_admin, example_teacher] []
     = (Message 400 ''Invalid teacherId'', [])
   \<and> routines_put example_admin ''1'' (JStr ''A'') (JStr ''Monday'') (JStr ''10:00'') (JStr ''Math'')
      (JNum 1) [example_admin, example_teacher] example_routines
     = (Message 400 ''Invalid teacherId'', example_routines)
   \<and> s_routines (run ''secret'' empty_store example_requests) = [example_routines ! 0]
   \<and> (\<exists>t \<in> set (s_users (run ''secret'' empty_store example_requests)).
         r_teacherId (example_routines ! 0) = JNum (of_int (u_id t))
         \<and> u_userType t = JStr ''Teacher'')"
proof -
  have none5: "\<not> (\<exists>t \<in> set [example_admin, example_teacher].
          JNum 5 = JNum (of_int (u_id t)) \<and> u_userType t = JStr ''Teacher'')"
    and none1: "\<not> (\<exists>t \<in> set [example_admin, example_teacher].
          JNum 1 = JNum (of_int (u_id t)) \<and> u_userType t = JStr ''Teacher'')"
    by (simp_all add: example_admin_def example_teacher_def)
  have admin: "u_userType example_admin = JStr ''Admin''"
    by (simp add: example_admin_def)
  have stored: "example_routines ! 0 \<in> set (s_routines (run ''secret'' empty_store example_requests))"
    by (simp add: example_requests_run)
  from routines_teacherId_gate[where users = "[example_admin, example_teacher]"
         and teacherId = "JNum 5" and u = example_admin and sec = "JStr ''A''"
         and day = "JStr ''Monday''" and time = "JStr ''10:00''" and subject = "JStr ''Math''"
         and routines = "[]"] none5 admin
  have p: "routines_post example_admin (JStr ''A'') (JStr ''Monday'') (JStr ''10:00'')
      (JStr ''Math'') (JNum 5) [example_admin, example_teacher] []
     = (Message 400 ''Invalid teacherId'', [])"
    by simp
  from routines_teacherId_gate[where users = "[example_admin, example_teacher]"
         and teacherId = "JNum 1" and u = example_admin and sec = "JStr ''A''"
         and day = "JStr ''Monday''" and time = "JStr ''10:00''" and subject = "JStr ''Math''"
         and routines = example_routines and id_param = "''1''"] none1 admin
  have q: "routines_put example_admin ''1'' (JStr ''A'') (JStr ''Monday'') (JStr ''10:00'')
      (JStr ''Math'') (JNum 1) [example_admin, example_teacher] example_routines
     = (Message 400 ''Invalid teacherId'', example_routines)"
    by simp
  from routines_teacherId_gate[where secret = "''secret''" and reqs = example_requests] stored
  have r: "\<exists>t \<in> set (s_users (run ''secret'' empty_store example_requests)).
         r_teacherId (example_routines ! 0) = JNum (of_int (u_id t))
         \<and> u_userType t = JStr ''Teacher''"
    by blast
  from p q r show ?thesis by (simp add: example_requests_run)
qed

subsection \<open>Accounts: one Identity per case-folded email\<close>

lemma find_by_email_None:
  "find_by_email users email = Inr None \<Longrightarrow>
     users = [] \<or> ((\<forall>u \<in> set users. toLowerCase (u_email u) \<noteq> None)
                   \<and> toLowerCase email \<noteq> None
                   \<and> toLowerCase email \<notin> set (map (\<lambda>u. toLowerCase (u_email u)) users))"
proof (induction users)
  case Nil
  then show ?case by simp
next
  case (Cons u us)
  from Cons.prems obtain a b where ab: "toLowerCase (u_email u) = Some a"
      "toLowerCase email = Some b" "a \<noteq> b" "find_by_email us email = Inr None"
    by (cases "toLowerCase (u_email u)"; cases "toLowerCase email")
       (simp_all split: if_splits)
  from Cons.IH[OF ab(4)] show ?case
  proof
    assume "us = []"
    with ab show ?thesis by simp
  next
    assume "(\<forall>u \<in> set us. toLowerCase (u_email u) \<noteq> None)
             \<and> toLowerCase email \<noteq> None
             \<and> toLowerCase email \<notin> set (map (\<lambda>u. toLowerCase (u_email u)) us)"
    with ab show ?thesis by auto
  qed
qed

lemma find_by_email_dup:
  assumes "\<forall>u \<in> set users. toLowerCase (u_email u) \<noteq> None"
    and "toLowerCase email = Some b"
    and "\<exists>u \<in> set users. toLowerCase (u_email u) = Some b"
  shows "\<exists>u. find_by_email users email = Inr (Some u)"
  using assms
  by (induction users) (auto split: option.splits)

lemma stored_eq_JStr [simp]: "stored v = JStr s \<longleftrightarrow> v = JStr s"
  by (cases v) auto

lemma toLowerCase_stored: "toLowerCase email \<noteq> None \<Longrightarrow> stored email = email"
  by (cases email) auto

lemma signup_emails_inv:
  assumes "emails_inv users"
  shows "emails_inv (snd (signup secret now email password userType sec users))"
  using signup_created_or_unchanged[of secret now email password userType sec users]
proof
  assume "snd (signup secret now email password userType sec users) = users"
  with assms show ?thesis by simp
next
  assume "\<exists>pw. password = JStr pw \<and> truthy email \<and> find_by_email users email = Inr None
         \<and> status (fst (signup secret now email password userType sec users)) \<in> {201, 500}
         \<and> snd (signup secret now email password userType sec users)
             = users @ [\<lparr> u_id = int (length users) + 1, u_email = stored email,
                              u_password = bcrypt_hash pw, u_userType = stored userType,
                              u_section = (if userType = JStr ''Student'' then stored sec
                                           else JUndefined) \<rparr>]"
  then obtain pw where ok: "find_by_email users email = Inr None" "truthy email"
      "snd (signup secret now email password userType sec users)
         = users @ [\<lparr> u_id = int (length users) + 1, u_email = stored email,
                      u_password = bcrypt_hash pw, u_userType = stored userType,
                      u_section = (if userType = JStr ''Student'' then stored sec
                                   else JUndefined) \<rparr>]"
    by blast
  from ok(2) have ne: "stored email \<noteq> JStr []"
    by auto
  from find_by_email_None[OF ok(1)] show ?thesis
  proof
    assume "users = []"
    with ok ne show ?thesis by (simp add: emails_inv_def)
  next
    assume a: "(\<forall>u \<in> set users. toLowerCase (u_email u) \<noteq> None)
             \<and> toLowerCase email \<noteq> None
             \<and> toLowerCase email \<notin> set (map (\<lambda>u. toLowerCase (u_email u)) users)"
    then have "stored email = email"
      by (simp add: toLowerCase_stored)
    with a ok ne assms show ?thesis by (auto simp: emails_inv_def)
  qed
qed

lemma step_emails_inv:
  "emails_inv (s_users st) \<Longrightarrow> emails_inv (s_users (step secret st req))"
  using step_users[of secret st req] signup_emails_inv by metis

lemma run_emails_inv:
  "emails_inv (s_users st) \<Longrightarrow> emails_inv (s_users (run secret st reqs))"
  unfolding run_def
  by (induction reqs arbitrary: st) (auto intro: step_emails_inv)

lemma reachable_emails_inv: "emails_inv (s_users (run secret empty_store reqs))"
  by (rule run_emails_inv) (simp add: empty_store_def emails_inv_def)

lemma emails_inv_all_strings:
  assumes "emails_inv users" and "u \<in> set users" and "u_email u = JStr a"
  shows "\<forall>v \<in> set users. toLowerCase (u_email v) \<noteq> None"
proof -
  from assms(1) consider "length users \<le> 1" | "\<forall>v \<in> set users. toLowerCase (u_email v) \<noteq> None"
    by (auto simp: emails_inv_def)
  then show ?thesis
  proof cases
    case 1
    with assms(2) have "users = [u]"
      by (cases users) auto
    with assms(3) show ?thesis by simp
  qed simp
qed

text \<open>
  Claim C4. After any sequence of requests from the empty store, no two stored Identities
  have the same case-folded email. A signup whose email is a stored Identity's email up
  to the case of its letters is answered 400 and adds no record; when its other fields
  pass the checks that come first (password present, a valid \<^verbatim>\<open>userType\<close>, a section for a
  Student), the answer is 400 User already exists.
\<close>

theorem signup_email_unique:
  "(\<forall>i < length (s_users (run secret empty_store reqs)).
      \<forall>j < length (s_users (run secret empty_store reqs)). i \<noteq> j \<longrightarrow>
        toLowerCase (u_email (s_users (run secret empty_store reqs) ! i))
          \<noteq> toLowerCase (u_email (s_users (run secret empty_store reqs) ! j)))
   \<and> ((\<exists>u \<in> set (s_users (run secret empty_store reqs)). \<exists>a b.
          u_email u = JStr a \<and> email = JStr b \<and> map lower_char a = map lower_char b)
      \<longrightarrow> status (fst (signup secret now email password userType sec
                          (s_users (run secret empty_store reqs)))) = 400
          \<and> snd (signup secret now email password userType sec
                    (s_users (run secret empty_store reqs)))
              = s_users (run secret empty_store reqs)
          \<and> (truthy password \<and> array_includes VALID_USER_TYPES userType
                \<and> (userType = JStr ''Student'' \<longrightarrow> truthy sec)
              \<longrightarrow> signup secret now email password userType sec
                      (s_users (run secret empty_store reqs))
                    = (Message 400 ''User already exists'',
                       s_users (run secret empty_store reqs))))"
proof -
  define users where "users = s_users (run secret empty_store reqs)"
  have inv: "emails_inv users"
    unfolding users_def by (rule reachable_emails_inv)
  have uniq: "\<forall>i < length users. \<forall>j < length users. i \<noteq> j \<longrightarrow>
        toLowerCase (u_email (users ! i)) \<noteq> toLowerCase (u_email (users ! j))"
  proof (intro allI impI)
    fix i j assume "i < length users" "j < length users" "i \<noteq> j"
    moreover from inv have "distinct (map (\<lambda>u. toLowerCase (u_email u)) users)"
      by (simp add: emails_inv_def)
    ultimately show "toLowerCase (u_email (users ! i)) \<noteq> toLowerCase (u_email (users ! j))"
      by (auto simp: distinct_conv_nth)
  qed
  have dup: "status (fst (signup secret now email password userType sec users)) = 400
          \<and> snd (signup secret now email password userType sec users) = users
          \<and> (truthy password \<and> array_includes VALID_USER_TYPES userType
                \<and> (userType = JStr ''Student'' \<longrightarrow> truthy sec)
              \<longrightarrow> signup secret now email password userType sec users
                    = (Message 400 ''User already exists'', users))"
    if "\<exists>u \<in> set users. \<exists>a b.
          u_email u = JStr a \<and> email = JStr b \<and> map lower_char a = map lower_char b"
  proof -
    from that obtain u a b where u: "u \<in> set users" "u_email u = JStr a" "email = JStr b"
        "map lower_char a = map lower_char b"
      by blast
    from inv u(1) have "u_email u \<noteq> JStr []" by (simp add: emails_inv_def)
    with u(2) have "a \<noteq> []" by simp
    with u(4) have "b \<noteq> []" by auto
    with u(3) have te: "truthy email" by simp
    from emails_inv_all_strings[OF inv u(1) u(2)]
    have strs: "\<forall>v \<in> set users. toLowerCase (u_email v) \<noteq> None" .
    have "toLowerCase (u_email u) = Some (map lower_char b)"
      using u(2) u(4) by simp
    with u(1) have "\<exists>v \<in> set users. toLowerCase (u_email v) = Some (map lower_char b)"
      by blast
    with find_by_email_dup[OF strs, of email "map lower_char b"] u(3)
    obtain v where "find_by_email users email = Inr (Some v)" by auto
    with te show ?thesis
      by (auto simp: signup_def array_includes_VALID_USER_TYPES)
  qed
  show ?thesis
    unfolding users_def[symmetric]
    by (rule conjI, rule uniq, rule impI, erule dup)
qed

theorem signup_email_unique_witness:
  "toLowerCase (u_email (s_users (run ''secret'' empty_store example_requests) ! 0))
     \<noteq> toLowerCase (u_email (s_users (run ''secret'' empty_store example_requests) ! 1))
   \<and> signup ''secret'' 5 (JStr ''Admin@Example.com'') (JStr ''password456'') (JStr ''Teacher'')
         JUndefined (s_users (run ''secret'' empty_store example_requests))
       = (Message 400 ''User already exists'', [example_admin, example_teacher])"
proof -
  note inst = signup_email_unique[where secret = "''secret''" and reqs = example_requests
      and email = "JStr ''Admin@Example.com''" and password = "JStr ''password456''"
      and userType = "JStr ''Teacher''" and sec = JUndefined and now = 5]
  have users: "s_users (run ''secret'' empty_store example_requests)
                 = [example_admin, example_teacher]"
    by (simp add: example_requests_run)
  have two: "(0::nat) < length (s_users (run ''secret'' empty_store example_requests))"
       "(1::nat) < length (s_users (run ''secret'' empty_store example_requests))" "(0::nat) \<noteq> 1"
    by (simp_all add: users)
  have dup: "\<exists>u \<in> set (s_users (run ''secret'' empty_store example_requests)). \<exists>a b.
          u_email u = JStr a \<and> JStr ''Admin@Example.com'' = JStr b
          \<and> map lower_char a = map lower_char b"
    by (simp add: users example_admin_def lower_char_def)
  have fields: "truthy (JStr ''password456'')"
      "array_includes VALID_USER_TYPES (JStr ''Teacher'')"
      "JStr ''Teacher'' = JStr ''Student'' \<longrightarrow> truthy JUndefined"
    by (simp_all add: array_includes_VALID_USER_TYPES)
  from inst two have a: "toLowerCase (u_email (s_users (run ''secret'' empty_store example_requests) ! 0))
     \<noteq> toLowerCase (u_email (s_users (run ''secret'' empty_store example_requests) ! 1))"
    by blast
  from inst dup fields have b: "signup ''secret'' 5 (JStr ''Admin@Example.com'')
         (JStr ''password456'') (JStr ''Teacher'')
         JUndefined (s_users (run ''secret'' empty_store example_requests))
       = (Message 400 ''User already exists'', s_users (run ''secret'' empty_store example_requests))"
    by blast
  from a b show ?thesis by (simp add: users)
qed

subsection \<open>Identifiers and keys\<close>

text \<open>
  Claim C5, where it fails. An attendance record created for user 2 in the empty
  collection has the fields \<^verbatim>\<open>userId\<close>, \<^verbatim>\<open>name\<close>, \<^verbatim>\<open>userType\<close> and \<^verbatim>\<open>attendance\<close>: it carries no
  identifier of its own, and the key it has, the \<^verbatim>\<open>userId\<close> 2, is not the collection length
  plus one. In routines, deleting routine 1 of two and then creating a routine gives the
  new record the identifier 2 again, so the collection holds two records with
  identifier 2.
\<close>

theorem length_plus_one_id_counterexample:
  "attendance_post example_admin_claims (JNum 2) (JObj [(''Monday'', JBool True)])
      [example_admin, example_teacher] []
     = (Body 201 [\<lparr> a_userId = JNum 2, a_name = JStr ''teacher@example.com'',
                     a_userType = JStr ''Teacher'',
                     a_attendance = JObj [(''Monday'', JBool True)] \<rparr>],
        [\<lparr> a_userId = JNum 2, a_name = JStr ''teacher@example.com'',
           a_userType = JStr ''Teacher'',
           a_attendance = JObj [(''Monday'', JBool True)] \<rparr>])
   \<and> map r_id
        (snd (routines_post example_admin (JStr ''B'') (JStr ''Friday'') (JStr ''09:00'')
                (JStr ''English'') (JNum 2) [example_admin, example_teacher]
                (snd (routines_delete example_admin ''1'' example_routines))))
       = [2, 2]"
  by (simp add: attendance_post_def example_admin_claims_def example_admin_def
        example_teacher_def validDays_def routines_post_def routines_delete_def
        example_routines_def is_teacher_with_id_def parseInt_string_def parse_unsigned_def
        parse_digits_def trim_start_def white_space_def is_digit_def digit_of_def
        digits_value_def to_double_def Let_def)

lemma ids_from_one_append:
  "ids_from_one ids \<Longrightarrow> ids_from_one (ids @ [int (length ids) + 1])"
  unfolding ids_from_one_def
proof -
  assume a: "ids = map int [1..<Suc (length ids)]"
  have "map int [1..<Suc (length (ids @ [int (length ids) + 1]))]
          = map int [1..<Suc (length ids)] @ [int (length ids) + 1]"
    by simp
  with a show "ids @ [int (length ids) + 1]
                 = map int [1..<Suc (length (ids @ [int (length ids) + 1]))]"
    by simp
qed

lemma ids_from_one_distinct: "ids_from_one ids \<Longrightarrow> distinct ids"
proof -
  assume "ids_from_one ids"
  then have "ids = map int [1..<Suc (length ids)]"
    by (simp add: ids_from_one_def)
  moreover have "distinct (map int [1..<Suc (length ids)])"
    by (simp add: distinct_map)
  ultimately show ?thesis by metis
qed

lemma signup_created:
  "status (fst (signup secret now email password userType sec users)) = 201 \<Longrightarrow>
     \<exists>rec. snd (signup secret now email password userType sec users) = users @ [rec]
            \<and> u_id rec = int (length users) + 1"
  using signup_success[of secret now email password userType sec users] by auto

lemma routines_post_created:
  "status (fst (routines_post u sec day time subject teacherId users routines)) = 201 \<Longrightarrow>
     \<exists>rec. routines_post u sec day time subject teacherId users routines
              = (Body 201 rec, routines @ [rec])
            \<and> r_id rec = int (length routines) + 1"
  by (auto simp: routines_post_def Let_def split: option.splits if_splits)

lemma documents_post_created:
  "status (fst (documents_post u date description upload documents)) = 201 \<Longrightarrow>
     \<exists>rec. documents_post u date description upload documents
              = (Body 201 rec, documents @ [rec])
            \<and> d_id rec = int (length documents) + 1"
  by (auto simp: documents_post_def Let_def split: option.splits if_splits)

lemma policies_post_created:
  "status (fst (policies_post u date description pfile policies)) = 201 \<Longrightarrow>
     \<exists>rec. policies_post u date description pfile policies
              = (Body 201 rec, policies @ [rec])
            \<and> d_id rec = int (length policies) + 1"
  by (auto simp: policies_post_def Let_def split: option.splits if_splits)

lemma signup_ids:
  assumes "ids_from_one (map u_id users)"
  shows "ids_from_one (map u_id (snd (signup secret now email password userType sec users)))"
  using signup_created_or_unchanged[of secret now email password userType sec users]
proof
  assume "snd (signup secret now email password userType sec users) = users"
  with assms show ?thesis by simp
next
  assume "\<exists>pw. password = JStr pw \<and> truthy email \<and> find_by_email users email = Inr None
         \<and> status (fst (signup secret now email password userType sec users)) \<in> {201, 500}
         \<and> snd (signup secret now email password userType sec users)
             = users @ [\<lparr> u_id = int (length users) + 1, u_email = stored email,
                              u_password = bcrypt_hash pw, u_userType = stored userType,
                              u_section = (if userType = JStr ''Student'' then stored sec
                                           else JUndefined) \<rparr>]"
  with ids_from_one_append[OF assms] show ?thesis by auto
qed

lemma documents_post_ids:
  assumes "ids_from_one (map d_id documents)"
  shows "ids_from_one (map d_id (snd (documents_post u date description upload documents)))"
proof (cases "status (fst (documents_post u date description upload documents)) = 201")
  case True
  from documents_post_created[OF True] ids_from_one_append[OF assms] show ?thesis by auto
next
  case False
  with assms show ?thesis by (simp add: documents_post_failure_no_write)
qed

lemma policies_post_ids:
  assumes "ids_from_one (map d_id policies)"
  shows "ids_from_one (map d_id (snd (policies_post u date description pfile policies)))"
proof (cases "status (fst (policies_post u date description pfile policies)) = 201")
  case True
  from policies_post_created[OF True] ids_from_one_append[OF assms] show ?thesis by auto
next
  case False
  with assms show ?thesis by (simp add: policies_post_failure_no_write)
qed

lemma step_ids: "append_only_ids st \<Longrightarrow> append_only_ids (step secret st req)"
proof (cases req)
  case (SignupReq now email password userType sec)
  then show "append_only_ids st \<Longrightarrow> ?thesis"
    using signup_ids by (simp add: append_only_ids_def)
next
  case (DocumentsPostReq tok now date description upload)
  then show "append_only_ids st \<Longrightarrow> ?thesis"
    using documents_post_ids by (simp add: append_only_ids_def split: sum.splits)
next
  case (PoliciesPostReq tok now date description pfile)
  then show "append_only_ids st \<Longrightarrow> ?thesis"
    using policies_post_ids by (simp add: append_only_ids_def split: sum.splits)
qed (simp_all add: append_only_ids_def split: sum.splits)

lemma run_ids: "append_only_ids st \<Longrightarrow> append_only_ids (run secret st reqs)"
  unfolding run_def
  by (induction reqs arbitrary: st) (auto intro: step_ids)

lemma reachable_ids: "append_only_ids (run secret empty_store reqs)"
  by (rule run_ids) (simp add: append_only_ids_def empty_store_def ids_from_one_def)

lemma replace_first_keys:
  "map a_userId (replace_first p (\<lambda>record. record\<lparr> a_attendance := att \<rparr>) xs) = map a_userId xs"
  by (induction xs) auto

lemma replace_first_set_keys:
  "a_userId ` set (replace_first p (\<lambda>record. record\<lparr> a_attendance := att \<rparr>) xs)
     = a_userId ` set xs"
  using replace_first_keys[of p att xs] by (metis set_map)

lemma attendance_post_keys_inv:
  assumes "attendance_keys_inv records"
  shows "attendance_keys_inv (snd (attendance_post c userId attendance users records))"
proof (cases "status (fst (attendance_post c userId attendance users records)) = 201")
  case False
  with assms show ?thesis by (simp add: attendance_post_failure_no_write)
next
  case True
  then obtain user where user: "find (\<lambda>u. strict_eq (JNum (of_int (u_id u))) userId) users
      = Some user"
    by (auto simp: attendance_post_def Let_def split: if_splits option.splits)
  then have uid: "userId = JNum (of_int (u_id user))"
    by (auto dest: find_Some_member)
  let ?p = "\<lambda>record. strict_eq (a_userId record) userId"
  show ?thesis
  proof (cases "find ?p records")
    case None
    with True user have w: "snd (attendance_post c userId attendance users records)
        = records @ [\<lparr> a_userId = stored userId, a_name = u_email user,
                          a_userType = u_userType user, a_attendance = stored attendance \<rparr>]"
      by (auto simp: attendance_post_def Let_def split: if_splits)
    from None have "\<forall>r \<in> set records. a_userId r \<noteq> userId"
      by (auto simp: find_None_iff2 uid)
    with assms show ?thesis
      unfolding w by (auto simp: attendance_keys_inv_def uid)
  next
    case (Some existing)
    with True user have w: "snd (attendance_post c userId attendance users records)
        = replace_first ?p (\<lambda>record. record\<lparr> a_attendance := stored attendance \<rparr>) records"
      by (auto simp: attendance_post_def Let_def split: if_splits)
    from assms show ?thesis
      unfolding w attendance_keys_inv_def
      using replace_first_keys[of ?p "stored attendance" records]
            replace_first_set_keys[of ?p "stored attendance" records]
      by (metis (no_types, lifting) image_iff)
  qed
qed

lemma marks_post_mark_keys:
  "map mark_key (snd (marks_post u date userId subject marks allMarks)) = map mark_key allMarks
   \<or> (map mark_key (snd (marks_post u date userId subject marks allMarks))
         = map mark_key allMarks @ [(parseInt userId, subject)]
       \<and> (parseInt userId \<noteq> None
            \<longrightarrow> (parseInt userId, subject) \<notin> set (map mark_key allMarks)))"
proof (cases "status (fst (marks_post u date userId subject marks allMarks)) = 201")
  case False
  then show ?thesis by (simp add: marks_post_failure_no_write)
next
  case True
  then obtain m where m: "marks = JNum m"
    by (cases marks) (simp_all add: marks_post_def split: if_splits)
  from True m have "array_includes validSubjects subject"
    by (auto simp: marks_post_def Let_def split: if_splits)
  then obtain s where s: "subject = JStr s"
    by (auto simp: array_includes_validSubjects)
  let ?entry = "\<lparr> m_userId = parseInt userId, m_subject = subject, m_marks = m,
                   m_grade = calculateGrade m, m_updatedBy = u_id u, m_updatedAt = date \<rparr>"
  let ?p = "\<lambda>m. num_eq (m_userId m) (parseInt userId) \<and> strict_eq (m_subject m) subject"
  show ?thesis
  proof (cases "findIndex ?p allMarks")
    case None
    with True m have w: "snd (marks_post u date userId subject marks allMarks)
        = allMarks @ [?entry]"
      by (auto simp: marks_post_def Let_def split: if_splits)
    from None have "\<forall>x \<in> set allMarks. \<not> ?p x"
      by (simp add: findIndex_None)
    then have "parseInt userId \<noteq> None
            \<longrightarrow> (parseInt userId, subject) \<notin> set (map mark_key allMarks)"
      by (auto simp: mark_key_def s)
    with w show ?thesis by (simp add: mark_key_def)
  next
    case (Some i)
    with True m have w: "snd (marks_post u date userId subject marks allMarks)
        = allMarks[i := ?entry]"
      by (auto simp: marks_post_def Let_def split: if_splits)
    from findIndex_Some[OF Some] have i: "i < length allMarks" "?p (allMarks ! i)"
      by simp_all
    then have "mark_key (allMarks ! i) = (parseInt userId, subject)"
      by (cases "parseInt userId") (auto simp: mark_key_def s)
    with i(1) have "(map mark_key allMarks)[i := (parseInt userId, subject)]
                    = map mark_key allMarks"
      by (simp add: list_update_same_conv)
    with w show ?thesis by (simp add: map_update mark_key_def)
  qed
qed

lemma marks_post_numeric_keys:
  assumes "distinct (numeric_keys allMarks)"
  shows "distinct (numeric_keys (snd (marks_post u date userId subject marks allMarks)))"
  using marks_post_mark_keys[of u date userId subject marks allMarks] assms
  by (auto simp: numeric_keys_def)

lemma step_keys: "keys_inv st \<Longrightarrow> keys_inv (step secret st req)"
proof (cases req)
  case (AttendancePostReq tok now userId attendance)
  then show "keys_inv st \<Longrightarrow> ?thesis"
    using attendance_post_keys_inv by (simp add: keys_inv_def split: sum.splits)
next
  case (MarksPostReq tok now date userId subject marks)
  then show "keys_inv st \<Longrightarrow> ?thesis"
    using marks_post_numeric_keys by (simp add: keys_inv_def split: sum.splits)
qed (simp_all add: keys_inv_def split: sum.splits)

lemma run_keys: "keys_inv st \<Longrightarrow> keys_inv (run secret st reqs)"
  unfolding run_def
  by (induction reqs arbitrary: st) (auto intro: step_keys)

lemma reachable_keys: "keys_inv (run secret empty_store reqs)"
  by (rule run_keys)
     (simp add: keys_inv_def empty_store_def attendance_keys_inv_def numeric_keys_def)

lemma run_append: "run secret st (xs @ ys) = run secret (run secret st xs) ys"
  by (simp add: run_def)

lemma example_session_run: "run ''secret'' empty_store example_session = example_store"
  unfolding example_session_def run_append example_requests_run
  by (simp add: run_def example_store_def example_admin_def example_teacher_def
        example_admin_token_def example_teacher_token_def authenticate_def
        attendance_authenticate_def jwt_verify_def documents_post_def policies_post_def
        fileFilter_def attendance_post_def validDays_def marks_post_def
        array_includes_validSubjects calculateGrade_def Let_def)

text \<open>
  Claim C5, amended. Creating an account, a routine, a document or a policy appends one
  record whose identifier is the length of the collection read plus one. After any
  sequence of requests from the empty store the identifiers of accounts, of documents and
  of policies are 1, 2, ... in order, hence unique within their collection. Attendance
  and marks records carry no such identifier and are identified by their key, which is
  unique within the collection: no two attendance records have the same \<^verbatim>\<open>userId\<close>, and
  among the marks records whose \<^verbatim>\<open>userId\<close> is a number no two have the same \<^verbatim>\<open>userId\<close> and
  subject.
\<close>

theorem create_assigns_next_id:
  "(status (fst (signup secret now email password userType sec users)) = 201 \<longrightarrow>
      (\<exists>rec. snd (signup secret now email password userType sec users) = users @ [rec]
             \<and> u_id rec = int (length users) + 1))
   \<and> (status (fst (routines_post u sec day time subject teacherId users routines)) = 201 \<longrightarrow>
      (\<exists>rec. routines_post u sec day time subject teacherId users routines
               = (Body 201 rec, routines @ [rec])
             \<and> r_id rec = int (length routines) + 1))
   \<and> (status (fst (documents_post u date description upload documents)) = 201 \<longrightarrow>
      (\<exists>rec. documents_post u date description upload documents
               = (Body 201 rec, documents @ [rec])
             \<and> d_id rec = int (length documents) + 1))
   \<and> (status (fst (policies_post u date description pfile policies)) = 201 \<longrightarrow>
      (\<exists>rec. policies_post u date description pfile policies
               = (Body 201 rec, policies @ [rec])
             \<and> d_id rec = int (length policies) + 1))
   \<and> (map u_id (s_users (run secret empty_store reqs))
         = map int [1..<Suc (length (s_users (run secret empty_store reqs)))]
       \<and> distinct (map u_id (s_users (run secret empty_store reqs))))
   \<and> (map d_id (s_documents (run secret empty_store reqs))
         = map int [1..<Suc (length (s_documents (run secret empty_store reqs)))]
       \<and> distinct (map d_id (s_documents (run secret empty_store reqs))))
   \<and> (map d_id (s_policies (run secret empty_store reqs))
         = map int [1..<Suc (length (s_policies (run secret empty_store reqs)))]
       \<and> distinct (map d_id (s_policies (run secret empty_store reqs))))
   \<and> distinct (map a_userId (s_attendance (run secret empty_store reqs)))
   \<and> distinct (filter (\<lambda>k. fst k \<noteq> None)
                 (map (\<lambda>m. (m_userId m, m_subject m)) (s_marks (run secret empty_store reqs))))"
proof -
  let ?st = "run secret empty_store reqs"
  from reachable_ids[of secret reqs]
  have ids: "ids_from_one (map u_id (s_users ?st))" "ids_from_one (map d_id (s_documents ?st))"
    "ids_from_one (map d_id (s_policies ?st))"
    by (simp_all add: append_only_ids_def)
  from ids have seqs:
    "map u_id (s_users ?st) = map int [1..<Suc (length (s_users ?st))]"
    "map d_id (s_documents ?st) = map int [1..<Suc (length (s_documents ?st))]"
    "map d_id (s_policies ?st) = map int [1..<Suc (length (s_policies ?st))]"
    by (simp_all add: ids_from_one_def)
  note dist = ids[THEN ids_from_one_distinct]
  from reachable_keys[of secret reqs]
  have att: "distinct (map a_userId (s_attendance ?st))"
    and mk: "distinct (numeric_keys (s_marks ?st))"
    by (simp_all add: keys_inv_def attendance_keys_inv_def)
  have mk': "distinct (filter (\<lambda>k. fst k \<noteq> None)
                 (map (\<lambda>m. (m_userId m, m_subject m)) (s_marks ?st)))"
    using mk by (simp add: numeric_keys_def mark_key_def[abs_def])
  show ?thesis
    apply (intro conjI impI)
    subgoal by (erule signup_created)
    subgoal by (erule routines_post_created)
    subgoal by (erule documents_post_created)
    subgoal by (erule policies_post_created)
    subgoal by (rule seqs(1))
    subgoal by (rule dist(1))
    subgoal by (rule seqs(2))
    subgoal by (rule dist(2))
    subgoal by (rule seqs(3))
    subgoal by (rule dist(3))
    subgoal by (rule att)
    subgoal by (rule mk')
    done
qed

theorem create_assigns_next_id_witness:
  "(\<exists>rec. snd (signup ''secret'' 0 (JStr ''teacher@example.com'') (JStr ''password123'')
                 (JStr ''Teacher'') JUndefined [example_admin]) = [example_admin] @ [rec]
          \<and> u_id rec = 2)
   \<and> (\<exists>rec. routines_post example_admin (JStr ''B'') (JStr ''Friday'') (JStr ''09:00'')
             (JStr ''English'') (JNum 2) [example_admin, example_teacher] example_routines
           = (Body 201 rec, example_routines @ [rec])
         \<and> r_id rec = 3)
   \<and> (\<exists>rec. documents_post example_teacher ''d1'' (JStr ''notes'') (Some ''f.pdf'') []
           = (Body 201 rec, [] @ [rec]) \<and> d_id rec = 1)
   \<and> (\<exists>rec. policies_post example_admin ''d2'' JUndefined (Some (''.pdf'', ''p.pdf'')) []
           = (Body 201 rec, [] @ [rec]) \<and> d_id rec = 1)
   \<and> map u_id (s_users (run ''secret'' empty_store example_session)) = [1, 2]
   \<and> map d_id (s_documents (run ''secret'' empty_store example_session)) = [1]
   \<and> map d_id (s_policies (run ''secret'' empty_store example_session)) = [1]
   \<and> distinct (map a_userId (s_attendance (run ''secret'' empty_store example_session)))
   \<and> length (s_attendance (run ''secret'' empty_store example_session)) = 1
   \<and> distinct (filter (\<lambda>k. fst k \<noteq> None)
         (map (\<lambda>m. (m_userId m, m_subject m))
            (s_marks (run ''secret'' empty_store example_session))))
   \<and> map m_marks (s_marks (run ''secret'' empty_store example_session)) = [90]"
proof -
  have ok1: "status (fst (signup ''secret'' 0 (JStr ''teacher@example.com'')
      (JStr ''password123'') (JStr ''Teacher'') JUndefined [example_admin])) = 201"
    by (simp add: signup_def array_includes_VALID_USER_TYPES example_admin_def lower_char_def
          jwt_sign_def Let_def)
  have ok2: "status (fst (routines_post example_admin (JStr ''B'') (JStr ''Friday'')
      (JStr ''09:00'') (JStr ''English'') (JNum 2) [example_admin, example_teacher]
      example_routines)) = 201"
    by (simp add: routines_post_def example_admin_def example_teacher_def
          is_teacher_with_id_def Let_def)
  have ok3: "status (fst (documents_post example_teacher ''d1'' (JStr ''notes'')
      (Some ''f.pdf'') [])) = 201"
    by (simp add: documents_post_def example_teacher_def Let_def)
  have ok4: "status (fst (policies_post example_admin ''d2'' JUndefined
      (Some (''.pdf'', ''p.pdf'')) [])) = 201"
    by (simp add: policies_post_def example_admin_def fileFilter_def Let_def)
  have lens: "int (length [example_admin]) + 1 = 2" "int (length example_routines) + 1 = 3"
      "int (length ([] :: document list)) + 1 = 1"
    by (simp_all add: example_routines_def)
  note inst = create_assigns_next_id[where secret = "''secret''" and reqs = example_session
      and now = 0 and email = "JStr ''teacher@example.com''" and password = "JStr ''password123''"
      and userType = "JStr ''Teacher''" and sec = JUndefined]
  from inst[where users = "[example_admin]"] ok1 lens(1)
  have a: "\<exists>rec. snd (signup ''secret'' 0 (JStr ''teacher@example.com'') (JStr ''password123'')
                 (JStr ''Teacher'') JUndefined [example_admin]) = [example_admin] @ [rec]
          \<and> u_id rec = 2"
    by simp
  from create_assigns_next_id[where u = example_admin and sec = "JStr ''B''"
      and day = "JStr ''Friday''" and time = "JStr ''09:00''" and subject = "JStr ''English''"
      and teacherId = "JNum 2" and users = "[example_admin, example_teacher]"
      and routines = example_routines and date = "''d2''" and description = JUndefined
      and pfile = "Some (''.pdf'', ''p.pdf'')" and policies = "[]"] ok2 ok4 lens
  have b: "\<exists>rec. routines_post example_admin (JStr ''B'') (JStr ''Friday'')
             (JStr ''09:00'') (JStr ''English'') (JNum 2) [example_admin, example_teacher]
             example_routines
           = (Body 201 rec, example_routines @ [rec])
         \<and> r_id rec = 3"
    and d: "\<exists>rec. policies_post example_admin ''d2'' JUndefined (Some (''.pdf'', ''p.pdf'')) []
           = (Body 201 rec, [] @ [rec]) \<and> d_id rec = 1"
    by simp_all
  from create_assigns_next_id[where u = example_teacher and date = "''d1''"
      and description = "JStr ''notes''" and upload = "Some ''f.pdf''" and documents = "[]"]
    ok3 lens
  have c: "\<exists>rec. documents_post example_teacher ''d1'' (JStr ''notes'') (Some ''f.pdf'') []
           = (Body 201 rec, [] @ [rec]) \<and> d_id rec = 1"
    by simp
  from inst have e:
    "map u_id (s_users (run ''secret'' empty_store example_session))
       = map int [1..<Suc (length (s_users (run ''secret'' empty_store example_session)))]"
    "map d_id (s_documents (run ''secret'' empty_store example_session))
       = map int [1..<Suc (length (s_documents (run ''secret'' empty_store example_session)))]"
    "map d_id (s_policies (run ''secret'' empty_store example_session))
       = map int [1..<Suc (length (s_policies (run ''secret'' empty_store example_session)))]"
    "distinct (map a_userId (s_attendance (run ''secret'' empty_store example_session)))"
    "distinct (filter (\<lambda>k. fst k \<noteq> None)
         (map (\<lambda>m. (m_userId m, m_subject m))
            (s_marks (run ''secret'' empty_store example_session))))"
    by blast+
  have f: "map u_id (s_users (run ''secret'' empty_store example_session)) = [1, 2]"
      "map d_id (s_documents (run ''secret'' empty_store example_session)) = [1]"
      "map d_id (s_policies (run ''secret'' empty_store example_session)) = [1]"
    using e(1-3) by (simp_all add: example_session_run example_store_def upt_rec)
  have g: "length (s_attendance (run ''secret'' empty_store example_session)) = 1"
      "map m_marks (s_marks (run ''secret'' empty_store example_session)) = [90]"
    by (simp_all add: example_session_run example_store_def)
  from a b c d f e(4,5) g show ?thesis by blast
qed

end
